theory Spec2Isabelle
  imports Main "HOL-Library.Sublist" "HOL-Library.Multiset"
begin

section \<open>JavaScript strings, arrays and values\<close>

text \<open>
  A JavaScript value of type \<open>string | undefined\<close> is a \<open>string option\<close>: \<open>None\<close> is
  \<open>undefined\<close>. \<open>truthy\<close> is JavaScript's truthiness of such a value (used by \<open>if (x)\<close>,
  \<open>!x\<close>, \<open>x && y\<close> and \<open>Array.prototype.filter(Boolean)\<close>): \<open>undefined\<close> and the empty
  string are falsy. \<open>template\<close> is the text a template literal \<open>`${x}`\<close> inserts.
\<close>

definition truthy :: "string option \<Rightarrow> bool" where
  "truthy v = (case v of None \<Rightarrow> False | Some x \<Rightarrow> x \<noteq> [])"

definition template :: "string option \<Rightarrow> string" where
  "template v = (case v of None \<Rightarrow> ''undefined'' | Some x \<Rightarrow> x)"

text \<open>\<open>String.prototype.startsWith\<close> and \<open>String.prototype.includes\<close>.\<close>

definition startsWith :: "string \<Rightarrow> string \<Rightarrow> bool" where
  "startsWith str searchString = prefix searchString str"

fun includes_str :: "string \<Rightarrow> string \<Rightarrow> bool" where
  "includes_str [] searchString = (searchString = [])"
| "includes_str (c # cs) searchString = (prefix searchString (c # cs) \<or> includes_str cs searchString)"

text \<open>
  \<open>String.prototype.split(sep)\<close> for a one-character separator. The array it returns is
  never empty, so it is given as its first piece and the list of the remaining pieces:
  \<open>'a/b/c'.split('/')\<close> is \<open>(''a'', [''b'', ''c''])\<close> and \<open>''.split('/')\<close> is \<open>('''', [])\<close>.
\<close>

fun split :: "char \<Rightarrow> string \<Rightarrow> string \<times> string list" where
  "split sep [] = ([], [])"
| "split sep (c # cs) =
     (case split sep cs of
        (p, ps) \<Rightarrow> if c = sep then ([], p # ps) else (c # p, ps))"

text \<open>
  \<open>Array.prototype.toString\<close>, which a template literal applies to an array: the elements
  joined by commas.
\<close>

fun Array_toString :: "string list \<Rightarrow> string" where
  "Array_toString [] = []"
| "Array_toString [x] = x"
| "Array_toString (x # y # ys) = x @ '','' @ Array_toString (y # ys)"

section \<open>HTTP responses, the caches and the network\<close>

type_synonym headers = "string \<rightharpoonup> string"

record Response =
  statusCode :: int
  headers :: headers
  body :: string

text \<open>
  The metadata object of a persistent-cache entry. Two writers share the store:
  \<open>resolveDependencyByUrl\<close> writes \<open>{installUrl, typesUrl}\<close> and \<open>fetchCDN\<close> writes
  \<open>{headers, statusCode, freshUntil}\<close>; \<open>resolveDependencyByUrl\<close> reads \<open>pinnedUrl\<close>. Each
  property the code touches is a field; \<open>None\<close> is a property that is missing
  (\<open>undefined\<close>). \<open>meta_freshUntil\<close> holds the time value (milliseconds since the epoch) that
  \<open>new Date(metadata.freshUntil)\<close> gives, \<open>None\<close> when that is an invalid date.
\<close>

record metadata =
  meta_pinnedUrl :: "string option"
  meta_installUrl :: "string option"
  meta_typesUrl :: "string option"
  meta_headers :: "headers option"
  meta_statusCode :: "int option"
  meta_freshUntil :: "int option"

record cache_entry =
  data :: string
  metadata :: metadata

datatype error =
    ReactWorkaround
      \<comment> \<open>React workaround packages no longer needed! ...\<close>
  | ComplexSemver string string
      \<comment> \<open>warn(specifier): Can't fetch complex semver "semver" from remote CDN.\<close>
  | FailedToResolve int string string
      \<comment> \<open>Failed to resolve [statusCode]: installUrl (body)\<close>
  | FailedToBuild string string
      \<comment> \<open>Failed to build: specifier@semver\<close>
  | ImportUrlExpected
      \<comment> \<open>X-Import-URL header expected, but none received.\<close>
  | UnexpectedResponse int string
      \<comment> \<open>Unexpected response [statusCode]: url\<close>
  | RequestError string
      \<comment> \<open>the rejection of \<open>got\<close> itself (no HTTP response at all)\<close>

text \<open>
  The process state: the module-level \<open>inMemoryCDNCache\<close>, the on-disk store \<open>cacache\<close>
  under \<open>RESOURCE_CACHE\<close>, the URLs requested over the network so far (oldest first), the
  number of times the clock has been read, and the writes to the store that have been
  issued without being awaited and have not ended yet (oldest first).

  The network is a parameter \<open>got\<close>: given the requests made before and the URL, it gives
  either a rejection or a response (\<open>throwHttpErrors: false\<close>: every status code is a
  response). The store is reliable: a \<open>cacache.put\<close> succeeds, and a \<open>cacache.get\<close> that
  rejects is turned into \<open>null\<close> by the code, which is what a missing entry gives. Every
  entry has a metadata object (both writers pass one). Console and logger output is
  not part of the state.
\<close>

record state =
  inMemoryCDNCache :: "string \<rightharpoonup> Response"
  cacache :: "string \<rightharpoonup> cache_entry"
  requests :: "string list"
  ticks :: nat
  unawaited :: "(string \<times> cache_entry) list"

type_synonym got = "string list \<Rightarrow> string \<Rightarrow> error + Response"

text \<open>\<open>headers['cache-control']?.includes('max-age=')\<close>\<close>

definition has_max_age :: "headers \<Rightarrow> bool" where
  "has_max_age h = (case h ''cache-control'' of None \<Rightarrow> False | Some v \<Rightarrow> includes_str v ''max-age='')"

text \<open>
  \<open>if (!url.startsWith(PIKA_CDN)) url = PIKA_CDN + url\<close>, the first statement of
  \<open>fetchCDNResource\<close>, \<open>resolveDependencyByUrl\<close> and \<open>fetchCDN\<close>. The origin constant
  (\<open>PIKA_CDN\<close>, \<open>SKYPACK_ORIGIN\<close>) is a parameter throughout.
\<close>

definition qualify :: "string \<Rightarrow> string \<Rightarrow> string" where
  "qualify PIKA_CDN url = (if \<not> startsWith url PIKA_CDN then PIKA_CDN @ url else url)"

section \<open>skypack/src/index.ts\<close>

definition fetchCDNResource :: "string \<Rightarrow> got \<Rightarrow> string \<Rightarrow> state \<Rightarrow> (error + Response) \<times> state" where
  "fetchCDNResource PIKA_CDN got resourceUrl0 s =
     (let resourceUrl = qualify PIKA_CDN resourceUrl0 in
      case inMemoryCDNCache s resourceUrl of
        Some response \<Rightarrow> (Inr response, s)
      | None \<Rightarrow>
          (let s1 = s\<lparr>requests := requests s @ [resourceUrl]\<rparr> in
           case got (requests s) resourceUrl of
             Inl err \<Rightarrow> (Inl err, s1)
           | Inr response \<Rightarrow>
               if has_max_age (headers response)
               then (Inr response,
                     s1\<lparr>inMemoryCDNCache := (inMemoryCDNCache s1)(resourceUrl \<mapsto> response)\<rparr>)
               else (Inr response, s1)))"

record Resolution =
  res_body :: string
  pinnedUrl :: "string option"

definition resolveDependencyByUrl :: "string \<Rightarrow> got \<Rightarrow> string \<Rightarrow> state \<Rightarrow> (error + Resolution) \<times> state" where
  "resolveDependencyByUrl PIKA_CDN got installUrl0 s =
     (let installUrl = qualify PIKA_CDN installUrl0 in
      case cacache s installUrl of
        Some cachedResult \<Rightarrow>
          (Inr \<lparr>res_body = data cachedResult,
                pinnedUrl = meta_pinnedUrl (metadata cachedResult)\<rparr>, s)
      | None \<Rightarrow>
          (case fetchCDNResource PIKA_CDN got installUrl s of
             (Inl err, s1) \<Rightarrow> (Inl err, s1)
           | (Inr response, s1) \<Rightarrow>
               if statusCode response \<noteq> 200
               then (Inl (FailedToResolve (statusCode response) installUrl (body response)), s1)
               else
                 (let typesUrlPath = headers response ''x-typescript-types'';
                      typesUrl = (if truthy typesUrlPath
                                  then Some (PIKA_CDN @ template typesUrlPath)
                                  else typesUrlPath);
                      s2 = (if has_max_age (headers response)
                            then s1\<lparr>cacache := (cacache s1)(installUrl \<mapsto>
                                   \<lparr>data = body response,
                                    metadata = \<lparr>meta_pinnedUrl = None,
                                                meta_installUrl = Some installUrl,
                                                meta_typesUrl = typesUrl,
                                                meta_headers = None,
                                                meta_statusCode = None,
                                                meta_freshUntil = None\<rparr>\<rparr>)\<rparr>
                            else s1)
                  in (Inr \<lparr>res_body = body response, pinnedUrl = Some installUrl\<rparr>, s2))))"

text \<open>
  An import map \<open>{imports: {...}}\<close>. The field \<open>imports_of\<close> is the object \<open>imports\<close>; a property of it can hold \<open>undefined\<close>
  (\<open>Some None\<close>): \<open>generateImportMap\<close> stores whatever \<open>pinnedUrl\<close> a resolution returned.
\<close>

record ImportMap =
  imports_of :: "string \<rightharpoonup> string option"

text \<open>
  \<open>lockfile && lockfile.imports[installSpecifier]\<close>: the pinned URL when that expression
  is truthy. A missing lockfile, a missing property and an empty string all give \<open>None\<close>.
  When there is a lockfile, the specifier is taken to name no property that every
  object inherits (\<open>constructor\<close>, \<open>__proto__\<close>, ...): for such a name the expression
  gives the inherited value, which is no string.
\<close>

definition lockfile_pin :: "ImportMap option \<Rightarrow> string \<Rightarrow> string option" where
  "lockfile_pin lockfile installSpecifier =
     (case lockfile of
        None \<Rightarrow> None
      | Some lf \<Rightarrow>
          (case imports_of lf installSpecifier of
             None \<Rightarrow> None
           | Some v \<Rightarrow> if truthy v then v else None))"

text \<open>
  Lines 78 to 87 of index.ts: the lookup URL. \<open>[specPart1, specPart2, ...specParts]\<close>
  destructures the split specifier, so \<open>specPart2\<close> is \<open>undefined\<close> when the specifier has
  no slash. The mapped array is interpolated as it is, through \<open>Array.prototype.toString\<close>.
\<close>

definition lookupUrl :: "string \<Rightarrow> string \<Rightarrow> string \<Rightarrow> string" where
  "lookupUrl PIKA_CDN installSpecifier packageSemver =
     (case split CHR ''/'' installSpecifier of
        (specPart1, rest) \<Rightarrow>
          (let specPart2 = (case rest of [] \<Rightarrow> None | x # _ \<Rightarrow> Some x);
               specParts = map Some (drop 1 rest)
           in if startsWith specPart1 ''@''
              then PIKA_CDN @ ''/'' @ specPart1 @ ''/'' @ template specPart2 @ ''@'' @ packageSemver
                   @ Array_toString (map (\<lambda>p. ''/'' @ template p) (filter truthy specParts))
              else PIKA_CDN @ ''/'' @ specPart1 @ ''@'' @ packageSemver
                   @ Array_toString (map (\<lambda>p. ''/'' @ template p)
                       (filter truthy (specPart2 # specParts)))))"


text \<open>
  \<open>resolveDependencyByName\<close>. The two copies of the function (index.ts and
  unnamed/part_000) differ only in how the lookup URL is built, so the builder is the
  parameter \<open>mkUrl\<close>: \<open>resolveDependencyByName lookupUrl\<close> is the function of index.ts
  and \<open>resolveDependencyByName lookupUrl_000\<close> the one of unnamed/part_000. The
  recursive call passes \<open>canRetry = false\<close>.
\<close>

function resolveDependencyByName ::
  "(string \<Rightarrow> string \<Rightarrow> string \<Rightarrow> string) \<Rightarrow> string \<Rightarrow> got \<Rightarrow> string \<Rightarrow> string
     \<Rightarrow> ImportMap option \<Rightarrow> bool \<Rightarrow> state \<Rightarrow> (error + Resolution) \<times> state"
where
  "resolveDependencyByName mkUrl PIKA_CDN got installSpecifier packageSemver lockfile canRetry s =
     (case lockfile_pin lockfile installSpecifier of
        Some installUrl \<Rightarrow> resolveDependencyByUrl PIKA_CDN got installUrl s
      | None \<Rightarrow>
          if startsWith packageSemver ''npm:@reactesm'' \<or> startsWith packageSemver ''npm:@pika/react''
          then (Inl ReactWorkaround, s)
          else if includes_str packageSemver '' '' \<or> includes_str packageSemver '':''
          then (Inl (ComplexSemver installSpecifier packageSemver), s)
          else
            (case fetchCDNResource PIKA_CDN got (mkUrl PIKA_CDN installSpecifier packageSemver) s of
               (Inl err, s1) \<Rightarrow> (Inl err, s1)
             | (Inr response, s1) \<Rightarrow>
                 if statusCode response \<noteq> 200
                 then (Inl (FailedToResolve (statusCode response)
                              (mkUrl PIKA_CDN installSpecifier packageSemver) (body response)), s1)
                 else if headers response ''x-import-status'' = Some ''SUCCESS''
                 then (Inr \<lparr>res_body = body response,
                            pinnedUrl = Some (PIKA_CDN @ template (headers response ''x-pinned-url''))\<rparr>,
                       s1)
                 else if \<not> canRetry \<or> headers response ''x-import-status'' = Some ''FAIL''
                 then (Inl (FailedToBuild installSpecifier packageSemver), s1)
                 else if \<not> truthy (headers response ''x-import-url'')
                 then (Inl ImportUrlExpected, s1)
                 else
                   (case fetchCDNResource PIKA_CDN got
                           (template (headers response ''x-import-url'')) s1 of
                      (Inl err, s2) \<Rightarrow> (Inl err, s2)
                    | (Inr lookup, s2) \<Rightarrow>
                        if statusCode lookup \<noteq> 200
                        then (Inl (UnexpectedResponse (statusCode lookup)
                                     (PIKA_CDN @ template (headers response ''x-import-url''))), s2)
                        else resolveDependencyByName mkUrl PIKA_CDN got installSpecifier
                               packageSemver lockfile False s2)))"
  by pat_completeness auto
termination
  by (relation "measure (\<lambda>(mkUrl, PIKA_CDN, got, installSpecifier, packageSemver, lockfile, canRetry, s).
                  if canRetry then 1 else 0)") auto

declare resolveDependencyByName.simps [simp del]

text \<open>
  \<open>simple_semver\<close> holds when neither validation test of the resolver (lines 66 and 71
  of index.ts) rejects the range.
\<close>

definition simple_semver :: "string \<Rightarrow> bool" where
  "simple_semver packageSemver =
     (\<not> (startsWith packageSemver ''npm:@reactesm'' \<or> startsWith packageSemver ''npm:@pika/react'')
      \<and> \<not> (includes_str packageSemver '' '' \<or> includes_str packageSemver '':''))"

section \<open>The lockfile generator\<close>

text \<open>
  \<open>generateImportMap\<close> (index.ts) and \<open>generateNewLockfile\<close> (unnamed/part_000) put one task
  per entry of \<open>webDependencies\<close> on a \<open>PQueue\<close> of concurrency 16 and wait for the queue to be
  idle. The tasks run together: each runs until its next \<open>await\<close>, and the event loop then
  continues some other task. So a task is modelled by the points at which it can be
  suspended, and the generator by a queue of such tasks that a schedule drives.

  \<open>fetchCDNResource\<close> has one \<open>await\<close>, on \<open>got\<close>. \<open>fetch_issue\<close> is the function up to there:
  the response of the memo, returned at once, or the qualified URL with what \<open>got\<close> is
  going to give, the request being logged. \<open>fetch_land\<close> is the rest of the function, run
  when \<open>got\<close> has settled.
\<close>

definition fetch_issue ::
  "string \<Rightarrow> got \<Rightarrow> string \<Rightarrow> state \<Rightarrow> (Response + string \<times> (error + Response)) \<times> state" where
  "fetch_issue PIKA_CDN got resourceUrl0 s =
     (let resourceUrl = qualify PIKA_CDN resourceUrl0 in
      case inMemoryCDNCache s resourceUrl of
        Some response \<Rightarrow> (Inl response, s)
      | None \<Rightarrow>
          (Inr (resourceUrl, got (requests s) resourceUrl),
           s\<lparr>requests := requests s @ [resourceUrl]\<rparr>))"

definition fetch_land :: "string \<Rightarrow> error + Response \<Rightarrow> state \<Rightarrow> (error + Response) \<times> state" where
  "fetch_land resourceUrl result s =
     (case result of
        Inl err \<Rightarrow> (Inl err, s)
      | Inr response \<Rightarrow>
          if has_max_age (headers response)
          then (Inr response,
                s\<lparr>inMemoryCDNCache := (inMemoryCDNCache s)(resourceUrl \<mapsto> response)\<rparr>)
          else (Inr response, s))"

text \<open>
  The points at which a call of \<open>resolveDependencyByName\<close> is suspended, with what the
  rest of the call needs:
  \<^item> \<open>GotLookup\<close>, \<open>GotPoll\<close>, \<open>GotUrl\<close>: inside \<open>fetchCDNResource\<close>, at \<open>await got(...)\<close>, for the
    lookup (with \<open>canRetry\<close>), the poll (with \<open>importUrlPath\<close>) and the direct fetch of
    \<open>resolveDependencyByUrl\<close> (with \<open>installUrl\<close>);
  \<^item> \<open>FetchedLookup\<close>, \<open>FetchedPoll\<close>, \<open>FetchedUrl\<close>: at the \<open>await fetchCDNResource(...)\<close> of the
    caller, with the response or rejection the call has ended with;
  \<^item> \<open>CacheGet\<close>: at \<open>await cacache.get(...)\<close>; \<open>CachePut\<close>: at \<open>await cacache.put(...)\<close>.
  The store is read when the \<open>get\<close> ends and written when the \<open>put\<close> ends.
\<close>

datatype pending =
    GotLookup bool string "error + Response"
  | FetchedLookup bool "error + Response"
  | GotPoll string string "error + Response"
  | FetchedPoll string "error + Response"
  | CacheGet string
  | GotUrl string string "error + Response"
  | FetchedUrl string "error + Response"
  | CachePut string Response

datatype progress = Suspended pending | Finished "error + Resolution"

text \<open>
  \<open>start\<close> is \<open>resolveDependencyByName\<close> from its call to its first \<open>await\<close> (or to its end, when
  validation throws); \<open>resume\<close> continues a suspended call to its next \<open>await\<close> or to its
  end. The recursive call of line 124 starts within the segment that follows the poll.
\<close>

definition start ::
  "(string \<Rightarrow> string \<Rightarrow> string \<Rightarrow> string) \<Rightarrow> string \<Rightarrow> got \<Rightarrow> ImportMap option \<Rightarrow> string \<Rightarrow> string
     \<Rightarrow> bool \<Rightarrow> state \<Rightarrow> progress \<times> state" where
  "start mkUrl PIKA_CDN got lockfile installSpecifier packageSemver canRetry s =
     (case lockfile_pin lockfile installSpecifier of
        Some installUrl \<Rightarrow> (Suspended (CacheGet (qualify PIKA_CDN installUrl)), s)
      | None \<Rightarrow>
          if startsWith packageSemver ''npm:@reactesm'' \<or> startsWith packageSemver ''npm:@pika/react''
          then (Finished (Inl ReactWorkaround), s)
          else if includes_str packageSemver '' '' \<or> includes_str packageSemver '':''
          then (Finished (Inl (ComplexSemver installSpecifier packageSemver)), s)
          else
            (case fetch_issue PIKA_CDN got (mkUrl PIKA_CDN installSpecifier packageSemver) s of
               (Inl response, s1) \<Rightarrow> (Suspended (FetchedLookup canRetry (Inr response)), s1)
             | (Inr (resourceUrl, result), s1) \<Rightarrow>
                 (Suspended (GotLookup canRetry resourceUrl result), s1)))"

definition resume ::
  "(string \<Rightarrow> string \<Rightarrow> string \<Rightarrow> string) \<Rightarrow> string \<Rightarrow> got \<Rightarrow> ImportMap option \<Rightarrow> string \<Rightarrow> string
     \<Rightarrow> pending \<Rightarrow> state \<Rightarrow> progress \<times> state" where
  "resume mkUrl PIKA_CDN got lockfile installSpecifier packageSemver p s =
     (case p of
        GotLookup canRetry resourceUrl result \<Rightarrow>
          (case fetch_land resourceUrl result s of
             (r, s1) \<Rightarrow> (Suspended (FetchedLookup canRetry r), s1))
      | FetchedLookup canRetry (Inl err) \<Rightarrow> (Finished (Inl err), s)
      | FetchedLookup canRetry (Inr response) \<Rightarrow>
          if statusCode response \<noteq> 200
          then (Finished (Inl (FailedToResolve (statusCode response)
                         (mkUrl PIKA_CDN installSpecifier packageSemver) (body response))), s)
          else if headers response ''x-import-status'' = Some ''SUCCESS''
          then (Finished (Inr \<lparr>res_body = body response,
                   pinnedUrl = Some (PIKA_CDN @ template (headers response ''x-pinned-url''))\<rparr>), s)
          else if \<not> canRetry \<or> headers response ''x-import-status'' = Some ''FAIL''
          then (Finished (Inl (FailedToBuild installSpecifier packageSemver)), s)
          else if \<not> truthy (headers response ''x-import-url'')
          then (Finished (Inl ImportUrlExpected), s)
          else
            (case fetch_issue PIKA_CDN got (template (headers response ''x-import-url'')) s of
               (Inl lookup, s1) \<Rightarrow>
                 (Suspended (FetchedPoll (template (headers response ''x-import-url''))
                    (Inr lookup)), s1)
             | (Inr (resourceUrl, result), s1) \<Rightarrow>
                 (Suspended (GotPoll (template (headers response ''x-import-url''))
                    resourceUrl result), s1))
      | GotPoll importUrlPath resourceUrl result \<Rightarrow>
          (case fetch_land resourceUrl result s of
             (r, s1) \<Rightarrow> (Suspended (FetchedPoll importUrlPath r), s1))
      | FetchedPoll importUrlPath (Inl err) \<Rightarrow> (Finished (Inl err), s)
      | FetchedPoll importUrlPath (Inr lookup) \<Rightarrow>
          if statusCode lookup \<noteq> 200
          then (Finished (Inl (UnexpectedResponse (statusCode lookup)
                         (PIKA_CDN @ importUrlPath))), s)
          else start mkUrl PIKA_CDN got lockfile installSpecifier packageSemver False s
      | CacheGet installUrl \<Rightarrow>
          (case cacache s installUrl of
             Some cachedResult \<Rightarrow>
               (Finished (Inr \<lparr>res_body = data cachedResult,
                               pinnedUrl = meta_pinnedUrl (metadata cachedResult)\<rparr>), s)
           | None \<Rightarrow>
               (case fetch_issue PIKA_CDN got installUrl s of
                  (Inl response, s1) \<Rightarrow> (Suspended (FetchedUrl installUrl (Inr response)), s1)
                | (Inr (resourceUrl, result), s1) \<Rightarrow>
                    (Suspended (GotUrl installUrl resourceUrl result), s1)))
      | GotUrl installUrl resourceUrl result \<Rightarrow>
          (case fetch_land resourceUrl result s of
             (r, s1) \<Rightarrow> (Suspended (FetchedUrl installUrl r), s1))
      | FetchedUrl installUrl (Inl err) \<Rightarrow> (Finished (Inl err), s)
      | FetchedUrl installUrl (Inr response) \<Rightarrow>
          if statusCode response \<noteq> 200
          then (Finished (Inl (FailedToResolve (statusCode response) installUrl
                         (body response))), s)
          else if has_max_age (headers response)
          then (Suspended (CachePut installUrl response), s)
          else (Finished (Inr \<lparr>res_body = body response, pinnedUrl = Some installUrl\<rparr>), s)
      | CachePut installUrl response \<Rightarrow>
          (let typesUrlPath = headers response ''x-typescript-types'';
               typesUrl = (if truthy typesUrlPath
                           then Some (PIKA_CDN @ template typesUrlPath)
                           else typesUrlPath)
           in (Finished (Inr \<lparr>res_body = body response, pinnedUrl = Some installUrl\<rparr>),
               s\<lparr>cacache := (cacache s)(installUrl \<mapsto>
                    \<lparr>data = body response,
                     metadata = \<lparr>meta_pinnedUrl = None,
                                 meta_installUrl = Some installUrl,
                                 meta_typesUrl = typesUrl,
                                 meta_headers = None,
                                 meta_statusCode = None,
                                 meta_freshUntil = None\<rparr>\<rparr>)\<rparr>)))"

text \<open>
  A task running with nothing in between: \<open>alone\<close> continues it where it is suspended and
  leaves it as it is once it has ended. \<open>rank\<close> bounds the segments a suspended task still
  has to run.
\<close>

definition alone ::
  "(string \<Rightarrow> string \<Rightarrow> string \<Rightarrow> string) \<Rightarrow> string \<Rightarrow> got \<Rightarrow> ImportMap option \<Rightarrow> string \<Rightarrow> string
     \<Rightarrow> progress \<times> state \<Rightarrow> progress \<times> state" where
  "alone mkUrl PIKA_CDN got lockfile installSpecifier packageSemver ps =
     (case ps of
        (Suspended p, s) \<Rightarrow> resume mkUrl PIKA_CDN got lockfile installSpecifier packageSemver p s
      | (Finished r, s) \<Rightarrow> (Finished r, s))"

fun rank :: "pending \<Rightarrow> nat" where
  "rank (GotLookup canRetry resourceUrl result) = (if canRetry then 8 else 2)"
| "rank (FetchedLookup canRetry r) = (if canRetry then 7 else 1)"
| "rank (GotPoll importUrlPath resourceUrl result) = 6"
| "rank (FetchedPoll importUrlPath r) = 5"
| "rank (CacheGet installUrl) = 4"
| "rank (GotUrl installUrl resourceUrl result) = 3"
| "rank (FetchedUrl installUrl r) = 2"
| "rank (CachePut installUrl response) = 1"

text \<open>
  \<open>obj[key] = value\<close> on a plain object, for a value that is a string or \<open>undefined\<close>: the
  key \<open>__proto__\<close> names the setter of \<open>Object.prototype\<close>, which ignores such a value, so
  no property is made.
\<close>

definition obj_set ::
  "(string \<rightharpoonup> string option) \<Rightarrow> string \<Rightarrow> string option \<Rightarrow> (string \<rightharpoonup> string option)" where
  "obj_set obj key v = (if key = ''__proto__'' then obj else obj(key \<mapsto> v))"

text \<open>
  The queue and the variables of the generator. A job is a task that has started:
  \<open>Running\<close> while its call of \<open>resolveDependencyByName\<close> is suspended, \<open>Returned\<close> once that
  call has ended and the task waits, at its own \<open>await\<close>, to go on with the outcome.
  \<open>waiting\<close> holds the entries not started yet, in the order of \<open>Object.entries\<close>;
  \<open>inflight\<close> the jobs; \<open>settled\<close> records, for the statements below, each task that has
  ended with its outcome, in the order in which the tasks ended; \<open>process\<close> is the state
  of the process.
\<close>

datatype job = Running pending | Returned "error + Resolution"

record queue =
  waiting :: "(string \<times> string) list"
  inflight :: "(string \<times> string \<times> job) list"
  newLockfile :: ImportMap
  resolutionError :: "error option"
  settled :: "(string \<times> (error + Resolution)) list"
  process :: state




definition settle :: "string \<Rightarrow> error + Resolution \<Rightarrow> queue \<Rightarrow> queue" where
  "settle installSpecifier outcome q =
     (case outcome of
        Inr r \<Rightarrow>
          q\<lparr>newLockfile := \<lparr>imports_of =
               obj_set (imports_of (newLockfile q)) installSpecifier (pinnedUrl r)\<rparr>,
            settled := settled q @ [(installSpecifier, Inr r)]\<rparr>
      | Inl err \<Rightarrow>
          q\<lparr>resolutionError :=
              (case resolutionError q of None \<Rightarrow> Some err | Some e \<Rightarrow> Some e),
            settled := settled q @ [(installSpecifier, Inl err)]\<rparr>)"







text \<open>
  For the statements about a batch: \<open>first_error\<close> is the earliest error of a list of
  outcomes, \<open>recorded\<close> is the object that storing the pinned URLs of its resolutions, in
  that order, makes, and \<open>in_turn\<close> is what the tasks do when each runs to its end before
  the next starts, that is, \<open>resolveDependencyByName\<close> called on one entry after the other.
\<close>

definition recorded :: "(string \<times> (error + Resolution)) list \<Rightarrow> (string \<rightharpoonup> string option)" where
  "recorded outcomes =
     foldl (\<lambda>obj (installSpecifier, outcome).
              case outcome of
                Inr r \<Rightarrow> obj_set obj installSpecifier (pinnedUrl r)
              | Inl err \<Rightarrow> obj)
       Map.empty outcomes"






section \<open>The freshness-aware read path (unnamed/part_002)\<close>

text \<open>
  The time is read from a parameter \<open>clock\<close>: the n-th \<open>new Date()\<close> of the process gives
  \<open>clock n\<close>, in milliseconds since the epoch.
\<close>

record CDNResult =
  cdn_body :: string
  cdn_headers :: "headers option"
  cdn_statusCode :: "int option"
  isCached :: bool
  isStale :: bool

text \<open>
  \<open>str.match(/max-age=(\d+)/)\<close>: the digits captured by the leftmost match, if there is
  one, and \<open>parseInt\<close> of a string of digits. (\<open>parseInt\<close> rounds above \<open>2^53\<close>; a number
  of seconds that large leaves the range of dates whatever the rounding.)
\<close>

definition isDigit :: "char \<Rightarrow> bool" where
  "isDigit c = (c \<in> set ''0123456789'')"

fun match_max_age :: "string \<Rightarrow> string option" where
  "match_max_age [] = None"
| "match_max_age (c # cs) =
     (if prefix ''max-age='' (c # cs) \<and> takeWhile isDigit (drop 8 (c # cs)) \<noteq> []
      then Some (takeWhile isDigit (drop 8 (c # cs)))
      else match_max_age cs)"

definition parseInt :: "string \<Rightarrow> int" where
  "parseInt ds = foldl (\<lambda>n c. 10 * n + (int (of_char c) - 48)) 0 ds"

text \<open>
  A date holds a time value between \<open>-8.64e15\<close> and \<open>8.64e15\<close> milliseconds; a date set
  beyond that is the invalid date. \<open>freshUntil_string\<close> is what reading back
  \<open>freshUntil.toUTCString()\<close> gives, for \<open>freshUntil\<close> the date \<open>now\<close> moved by \<open>seconds\<close> with
  \<open>setSeconds\<close>: the time value without its milliseconds, or the invalid date (\<open>None\<close>)
  when the move leaves the range. (The offset of the local time zone is taken to be
  the same at both dates, and the string to be read back as the date it was made from.)
\<close>

definition freshUntil_string :: "int \<Rightarrow> int \<Rightarrow> int option" where
  "freshUntil_string now seconds =
     (let tv = now + 1000 * seconds in
      if - 8640000000000000 \<le> tv \<and> tv \<le> 8640000000000000
      then Some (tv div 1000 * 1000)
      else None)"

text \<open>
  Lines 40 to 83 of \<open>fetchCDN\<close>: the request, the fallback on its rejection, and the
  write to the store. The \<open>cacache.put\<close> is issued and not awaited: it joins the
  \<open>unawaited\<close> writes of the state, and \<open>fetchCDN\<close> returns with the store as it was.
  \<open>put_settles\<close> is the end of such a write, later on: it lands in the store, or it fails
  and the \<open>catch\<close> swallows the failure.
\<close>

definition fetchCDN_fresh ::
  "got \<Rightarrow> (nat \<Rightarrow> int) \<Rightarrow> string \<Rightarrow> cache_entry option \<Rightarrow> state \<Rightarrow> (error + CDNResult) \<times> state" where
  "fetchCDN_fresh got clock resourceUrl cachedResult s =
     (let s1 = s\<lparr>requests := requests s @ [resourceUrl]\<rparr> in
      case got (requests s) resourceUrl of
        Inl err \<Rightarrow>
          (case cachedResult of
             Some c \<Rightarrow>
               (Inr \<lparr>cdn_body = data c,
                     cdn_headers = meta_headers (metadata c),
                     cdn_statusCode = meta_statusCode (metadata c),
                     isCached = True, isStale = True\<rparr>, s1)
           | None \<Rightarrow> (Inl err, s1))
      | Inr freshResult \<Rightarrow>
          (let cacheUntilMatch =
                 (case headers freshResult ''cache-control'' of
                    None \<Rightarrow> None
                  | Some v \<Rightarrow> match_max_age v);
               s2 = (case cacheUntilMatch of
                       None \<Rightarrow> s1
                     | Some digits \<Rightarrow>
                         s1\<lparr>ticks := Suc (ticks s1),
                            unawaited := unawaited s1 @ [(resourceUrl,
                              \<lparr>data = body freshResult,
                               metadata = \<lparr>meta_pinnedUrl = None,
                                           meta_installUrl = None,
                                           meta_typesUrl = None,
                                           meta_headers = Some (headers freshResult),
                                           meta_statusCode = Some (statusCode freshResult),
                                           meta_freshUntil =
                                             freshUntil_string (clock (ticks s1))
                                               (parseInt digits)\<rparr>\<rparr>)]\<rparr>)
           in (Inr \<lparr>cdn_body = body freshResult,
                    cdn_headers = Some (headers freshResult),
                    cdn_statusCode = Some (statusCode freshResult),
                    isCached = False, isStale = False\<rparr>, s2)))"

definition put_settles :: "nat \<Rightarrow> bool \<Rightarrow> state \<Rightarrow> state" where
  "put_settles i lands s =
     (if i < length (unawaited s)
      then (let (key, entry) = unawaited s ! i;
                s1 = s\<lparr>unawaited := take i (unawaited s) @ drop (Suc i) (unawaited s)\<rparr>
            in if lands then s1\<lparr>cacache := (cacache s1)(key \<mapsto> entry)\<rparr> else s1)
      else s)"

text \<open>
  \<open>fetchCDN\<close>. \<open>freshUntil >= new Date()\<close> is false when \<open>freshUntil\<close> is an invalid date;
  the clock is read whenever the store has an entry.
\<close>

definition fetchCDN ::
  "string \<Rightarrow> got \<Rightarrow> (nat \<Rightarrow> int) \<Rightarrow> string \<Rightarrow> state \<Rightarrow> (error + CDNResult) \<times> state" where
  "fetchCDN SKYPACK_ORIGIN got clock resourceUrl0 s =
     (let resourceUrl = qualify SKYPACK_ORIGIN resourceUrl0 in
      case cacache s resourceUrl of
        None \<Rightarrow> fetchCDN_fresh got clock resourceUrl None s
      | Some cachedResult \<Rightarrow>
          (let now = clock (ticks s);
               s1 = s\<lparr>ticks := Suc (ticks s)\<rparr>
           in if (case meta_freshUntil (metadata cachedResult) of
                    None \<Rightarrow> False
                  | Some freshUntil \<Rightarrow> freshUntil \<ge> now)
              then (Inr \<lparr>cdn_body = data cachedResult,
                         cdn_headers = meta_headers (metadata cachedResult),
                         cdn_statusCode = meta_statusCode (metadata cachedResult),
                         isCached = True, isStale = False\<rparr>, s1)
              else fetchCDN_fresh got clock resourceUrl (Some cachedResult) s1))"

section \<open>Example runs\<close>

text \<open>
  Concrete states and networks, used to run the functions above: the state of a fresh
  process with an empty store, a network that is down, and a network that answers from
  a table of URLs (and \<open>404\<close> for every other URL).
\<close>

definition init :: state where
  "init = \<lparr>inMemoryCDNCache = Map.empty, cacache = Map.empty, requests = [], ticks = 0,
            unawaited = []\<rparr>"

definition offline :: got where
  "offline history url = Inl (RequestError ''ENOTFOUND'')"

definition response :: "int \<Rightarrow> (string \<times> string) list \<Rightarrow> string \<Rightarrow> Response" where
  "response status hs b = \<lparr>statusCode = status, headers = map_of hs, body = b\<rparr>"

definition serve :: "(string \<times> Response) list \<Rightarrow> got" where
  "serve table history url =
     (case map_of table url of
        Some r \<Rightarrow> Inr r
      | None \<Rightarrow> Inr (response 404 [] ''Not Found''))"

text \<open>The lockfile \<open>{"imports": {"foo": "https://cdn/foo@1.0.0"}}\<close> and a CDN that has the file.\<close>

definition foo_lockfile :: ImportMap where
  "foo_lockfile = \<lparr>imports_of = [''foo'' \<mapsto> Some ''https://cdn/foo@1.0.0'']\<rparr>"

definition foo_cdn :: got where
  "foo_cdn = serve [(''https://cdn/foo@1.0.0'',
                      response 200 [(''cache-control'', ''public, max-age=31536000'')]
                        ''export default 1;'')]"

text \<open>
  CDNs for the lookup of \<open>bar\<close> at \<open>^2.0.0\<close>, whose lookup URL is \<open>https://cdn/bar@^2.0.0\<close>:
  one that reports a pending build without a poll location, one whose poll location
  answers \<open>500\<close>, one that never finishes the build, and one that reports the build as
  pending until the poll location has been requested and as done from then on.
\<close>

definition no_poll_location :: got where
  "no_poll_location = serve [(''https://cdn/bar@^2.0.0'',
                               response 200 [(''x-import-status'', ''PENDING'')] '''')]"

definition poll_rejected :: got where
  "poll_rejected = serve [(''https://cdn/bar@^2.0.0'',
                            response 200 [(''x-import-status'', ''PENDING''),
                                          (''x-import-url'', ''/new/bar@2.0.3'')] ''''),
                          (''https://cdn/new/bar@2.0.3'', response 500 [] ''Build error'')]"

definition never_built :: got where
  "never_built = serve [(''https://cdn/bar@^2.0.0'',
                          response 200 [(''x-import-status'', ''PENDING''),
                                        (''x-import-url'', ''/new/bar@2.0.3'')] ''''),
                        (''https://cdn/new/bar@2.0.3'', response 200 [] '''')]"

definition built_after_poll :: got where
  "built_after_poll history url =
     (if url = ''https://cdn/bar@^2.0.0'' \<and> ''https://cdn/new/bar@2.0.3'' \<in> set history
      then Inr (response 200 [(''x-import-status'', ''SUCCESS''),
                              (''x-pinned-url'', ''/pin/bar@v2.0.3-abc/bar.js'')]
                  ''export default 2;'')
      else never_built history url)"

text \<open>
  Two CDNs that answer the lookup of \<open>bar\<close> with status 200 and no \<open>x-import-status\<close>
  header: one sends nothing else, the other sends a poll location that answers 200.
\<close>

definition no_status :: got where
  "no_status = serve [(''https://cdn/bar@^2.0.0'', response 200 [] ''export default 2;'')]"

definition no_status_with_poll :: got where
  "no_status_with_poll = serve [(''https://cdn/bar@^2.0.0'',
                                  response 200 [(''x-import-url'', ''/new/bar@2.0.3'')]
                                    ''export default 2;''),
                                (''https://cdn/new/bar@2.0.3'', response 200 [] '''')]"

text \<open>
  A CDN that sends no \<open>cache-control\<close> header and whose content at a URL changes once the
  URL has been requested.
\<close>

definition uncacheable :: got where
  "uncacheable history url =
     Inr (response 200 []
            (if url \<in> set history then ''export default 2;'' else ''export default 1;''))"

text \<open>The state of the process after \<open>https://cdn/foo@1.0.0\<close> has been resolved once.\<close>

definition foo_cached :: state where
  "foo_cached =
     \<lparr>inMemoryCDNCache = [''https://cdn/foo@1.0.0'' \<mapsto>
          response 200 [(''cache-control'', ''public, max-age=31536000'')] ''export default 1;''],
      cacache = [''https://cdn/foo@1.0.0'' \<mapsto>
          \<lparr>data = ''export default 1;'',
           metadata = \<lparr>meta_pinnedUrl = None,
                       meta_installUrl = Some ''https://cdn/foo@1.0.0'',
                       meta_typesUrl = None, meta_headers = None,
                       meta_statusCode = None, meta_freshUntil = None\<rparr>\<rparr>],
      requests = [''https://cdn/foo@1.0.0''], ticks = 0, unawaited = []\<rparr>"




text \<open>
  A store that holds \<open>https://cdn.skypack.dev/lodash\<close>, fresh until time 2000, and two
  clocks: one that reads 1000 and one that reads 3000.
\<close>

definition lodash_entry :: cache_entry where
  "lodash_entry =
     \<lparr>data = ''export default {};'',
      metadata = \<lparr>meta_pinnedUrl = None, meta_installUrl = None, meta_typesUrl = None,
                  meta_headers = Some [''cache-control'' \<mapsto> ''max-age=1''],
                  meta_statusCode = Some 200,
                  meta_freshUntil = Some 2000\<rparr>\<rparr>"

definition lodash_stored :: state where
  "lodash_stored = init\<lparr>cacache := [''https://cdn.skypack.dev/lodash'' \<mapsto> lodash_entry]\<rparr>"

definition early :: "nat \<Rightarrow> int" where
  "early n = 1000"

definition late :: "nat \<Rightarrow> int" where
  "late n = 3000"

text \<open>
  A CDN that reports the build of \<open>bar\<close> as pending until the poll location has been
  requested, and from then on answers the lookup with status 200 and no header at all.
\<close>

definition unlabelled_after_poll :: got where
  "unlabelled_after_poll history url =
     (if url = ''https://cdn/bar@^2.0.0'' \<and> ''https://cdn/new/bar@2.0.3'' \<in> set history
      then Inr (response 200 [] ''export default 2;'')
      else never_built history url)"

section \<open>Auxiliary facts\<close>

lemma qualify_idem: "qualify c (qualify c u) = qualify c u"
  by (simp add: qualify_def startsWith_def)

lemma qualify_startsWith: "startsWith (qualify c u) c"
  by (simp add: qualify_def startsWith_def)

lemma lockfile_pin_Some:
  "lockfile = Some lf \<Longrightarrow> imports_of lf sp = Some (Some u) \<Longrightarrow> u \<noteq> []
     \<Longrightarrow> lockfile_pin lockfile sp = Some u"
  by (simp add: lockfile_pin_def truthy_def)

lemma resolve_pin:
  "lockfile_pin lockfile sp = Some u \<Longrightarrow>
   resolveDependencyByName mk c g sp sv lockfile b s = resolveDependencyByUrl c g u s"
  by (subst resolveDependencyByName.simps) simp

lemma resolve_react:
  "lockfile_pin lockfile sp = None \<Longrightarrow>
   startsWith sv ''npm:@reactesm'' \<or> startsWith sv ''npm:@pika/react'' \<Longrightarrow>
   resolveDependencyByName mk c g sp sv lockfile b s = (Inl ReactWorkaround, s)"
  by (subst resolveDependencyByName.simps) simp

lemma resolve_complex:
  "lockfile_pin lockfile sp = None \<Longrightarrow>
   \<not> (startsWith sv ''npm:@reactesm'' \<or> startsWith sv ''npm:@pika/react'') \<Longrightarrow>
   includes_str sv '' '' \<or> includes_str sv '':'' \<Longrightarrow>
   resolveDependencyByName mk c g sp sv lockfile b s = (Inl (ComplexSemver sp sv), s)"
  by (subst resolveDependencyByName.simps) simp

text \<open>The resolver on the lookup path, once the pin test and the validation are passed.\<close>

lemma resolve_lookup:
  "lockfile_pin lockfile sp = None \<Longrightarrow> simple_semver sv \<Longrightarrow>
   resolveDependencyByName mk c g sp sv lockfile b s =
     (case fetchCDNResource c g (mk c sp sv) s of
        (Inl err, s1) \<Rightarrow> (Inl err, s1)
      | (Inr r, s1) \<Rightarrow>
          if statusCode r \<noteq> 200
          then (Inl (FailedToResolve (statusCode r) (mk c sp sv) (body r)), s1)
          else if headers r ''x-import-status'' = Some ''SUCCESS''
          then (Inr \<lparr>res_body = body r,
                     pinnedUrl = Some (c @ template (headers r ''x-pinned-url''))\<rparr>, s1)
          else if \<not> b \<or> headers r ''x-import-status'' = Some ''FAIL''
          then (Inl (FailedToBuild sp sv), s1)
          else if \<not> truthy (headers r ''x-import-url'')
          then (Inl ImportUrlExpected, s1)
          else
            (case fetchCDNResource c g (template (headers r ''x-import-url'')) s1 of
               (Inl err, s2) \<Rightarrow> (Inl err, s2)
             | (Inr r2, s2) \<Rightarrow>
                 if statusCode r2 \<noteq> 200
                 then (Inl (UnexpectedResponse (statusCode r2)
                              (c @ template (headers r ''x-import-url''))), s2)
                 else resolveDependencyByName mk c g sp sv lockfile False s2))"
  by (subst resolveDependencyByName.simps) (simp add: simple_semver_def)

section \<open>Validation failures\<close>

text \<open>
  Claim C6. On the lookup path (no lockfile pin) the resolver fails at once, leaving the
  whole state as it was (so no request is made and nothing is retried), whenever the
  semver range starts with one of the two React workaround prefixes, and whenever it
  contains a space or a colon. The error is the workaround error in the first case
  and the complex-semver error otherwise. This holds for every value of \<open>canRetry\<close>.
\<close>

theorem validation_fails_without_request:
  assumes "lockfile_pin lockfile installSpecifier = None"
  shows "(startsWith packageSemver ''npm:@reactesm'' \<or> startsWith packageSemver ''npm:@pika/react''
            \<longrightarrow> resolveDependencyByName lookupUrl PIKA_CDN got installSpecifier packageSemver
                    lockfile canRetry s
                  = (Inl ReactWorkaround, s))
       \<and> (includes_str packageSemver '' '' \<or> includes_str packageSemver '':''
            \<longrightarrow> resolveDependencyByName lookupUrl PIKA_CDN got installSpecifier packageSemver
                    lockfile canRetry s
                  = (Inl (if startsWith packageSemver ''npm:@reactesm''
                             \<or> startsWith packageSemver ''npm:@pika/react''
                          then ReactWorkaround
                          else ComplexSemver installSpecifier packageSemver), s))"
  using assms
    resolve_react [of lockfile installSpecifier packageSemver lookupUrl PIKA_CDN got canRetry s]
    resolve_complex [of lockfile installSpecifier packageSemver lookupUrl PIKA_CDN got canRetry s]
  by auto

theorem validation_fails_without_request_witness:
  "resolveDependencyByName lookupUrl ''https://cdn'' offline ''react'' ''npm:@pika/react@16'' None
     True init
     = (Inl ReactWorkaround, init)
   \<and> resolveDependencyByName lookupUrl ''https://cdn'' offline ''b'' ''1 2'' None True init
     = (Inl (ComplexSemver ''b'' ''1 2''), init)"
  using
    validation_fails_without_request
      [of None "''react''" "''npm:@pika/react@16''" "''https://cdn''" offline True init]
    validation_fails_without_request
      [of None "''b''" "''1 2''" "''https://cdn''" offline True init]
  by (simp add: lockfile_pin_def startsWith_def)

section \<open>Requests made by one call\<close>

lemma fetchCDNResource_requests:
  "fetchCDNResource c g u s = (r, s1) \<Longrightarrow>
   requests s1 = requests s \<or> requests s1 = requests s @ [qualify c u]"
  by (auto simp: fetchCDNResource_def Let_def split: option.splits sum.splits if_splits)

lemma fetchCDNResource_cacache:
  "fetchCDNResource c g u s = (r, s1) \<Longrightarrow> cacache s1 = cacache s"
  by (auto simp: fetchCDNResource_def Let_def split: option.splits sum.splits if_splits)

lemma resolveDependencyByUrl_requests:
  "resolveDependencyByUrl c g u s = (r, s1) \<Longrightarrow>
   requests s1 = requests s \<or> requests s1 = requests s @ [qualify c u]"
  by (auto simp: resolveDependencyByUrl_def Let_def qualify_idem
           split: option.splits sum.splits if_splits prod.splits
           dest!: fetchCDNResource_requests)

section \<open>The pin fast path\<close>

text \<open>
  Claim C2. When the lockfile holds a pin for the specifier (a non-empty URL string
  under \<open>imports\<close>; the test of the code is the truthiness of that property), each copy
  of \<open>resolveDependencyByName\<close> is \<open>resolveDependencyByUrl\<close> on the pinned URL: the result
  and the final state are the same for every semver range, valid or not, and every
  \<open>canRetry\<close>. So nothing is validated, and the only request the call can make is the
  URL resolver's own request for the pinned URL.
\<close>

theorem pin_delegates_to_url_resolver:
  assumes "lockfile = Some lf"
    and "imports_of lf installSpecifier = Some (Some url)"
    and "url \<noteq> []"
  shows "resolveDependencyByName mkUrl PIKA_CDN got installSpecifier packageSemver lockfile canRetry s
           = resolveDependencyByUrl PIKA_CDN got url s
       \<and> (requests (snd (resolveDependencyByName mkUrl PIKA_CDN got installSpecifier packageSemver
                           lockfile canRetry s)) = requests s
          \<or> requests (snd (resolveDependencyByName mkUrl PIKA_CDN got installSpecifier packageSemver
                           lockfile canRetry s)) = requests s @ [qualify PIKA_CDN url])"
proof -
  have pin: "lockfile_pin lockfile installSpecifier = Some url"
    using assms by (rule lockfile_pin_Some)
  have eq: "resolveDependencyByName mkUrl PIKA_CDN got installSpecifier packageSemver lockfile canRetry s
              = resolveDependencyByUrl PIKA_CDN got url s"
    using pin by (rule resolve_pin)
  obtain r s1 where run: "resolveDependencyByUrl PIKA_CDN got url s = (r, s1)"
    by (cases "resolveDependencyByUrl PIKA_CDN got url s")
  from resolveDependencyByUrl_requests [OF run] eq run show ?thesis
    by simp
qed

theorem pin_delegates_to_url_resolver_witness:
  "fst (resolveDependencyByName lookupUrl ''https://cdn'' foo_cdn ''foo'' ''1 || 2'' (Some foo_lockfile)
          True init)
     = Inr \<lparr>res_body = ''export default 1;'', pinnedUrl = Some ''https://cdn/foo@1.0.0''\<rparr>
   \<and> requests (snd (resolveDependencyByName lookupUrl ''https://cdn'' foo_cdn ''foo'' ''1 || 2''
                      (Some foo_lockfile) True init))
     = [''https://cdn/foo@1.0.0'']"
proof -
  have run: "resolveDependencyByUrl ''https://cdn'' foo_cdn ''https://cdn/foo@1.0.0'' init
      = (Inr \<lparr>res_body = ''export default 1;'', pinnedUrl = Some ''https://cdn/foo@1.0.0''\<rparr>,
         foo_cached)"
    by (simp add: resolveDependencyByUrl_def fetchCDNResource_def qualify_def startsWith_def
          init_def foo_cdn_def foo_cached_def serve_def response_def has_max_age_def truthy_def
          Let_def)
  show ?thesis
    using pin_delegates_to_url_resolver
      [of "Some foo_lockfile" foo_lockfile "''foo''" "''https://cdn/foo@1.0.0''" lookupUrl
          "''https://cdn''" foo_cdn "''1 || 2''" True init]
    by (simp add: run foo_lockfile_def foo_cached_def)
qed

section \<open>The pending build: missing poll location, rejected poll\<close>

text \<open>
  Claim C5. Take a lookup (no pin, a range that passes validation) that is still allowed
  to retry and whose response has status 200 and a build status that is neither
  \<open>SUCCESS\<close> nor \<open>FAIL\<close>. If the response has no \<open>x-import-url\<close> (or an empty one), the
  resolver fails with the missing-header error in the state the lookup left. If it has
  one and the single poll of it answers with a status other than 200, the resolver fails
  with the unexpected-response error in the state the poll left. In both cases the call
  ends there: no further request, no second lookup.
\<close>

theorem pending_without_poll_or_rejected_poll_is_fatal:
  assumes "lockfile_pin lockfile installSpecifier = None"
    and "simple_semver packageSemver"
    and "fetchCDNResource PIKA_CDN got (lookupUrl PIKA_CDN installSpecifier packageSemver) s
           = (Inr r, s1)"
    and "statusCode r = 200"
    and "headers r ''x-import-status'' \<noteq> Some ''SUCCESS''"
    and "headers r ''x-import-status'' \<noteq> Some ''FAIL''"
  shows "(\<not> truthy (headers r ''x-import-url'')
            \<longrightarrow> resolveDependencyByName lookupUrl PIKA_CDN got installSpecifier packageSemver
                    lockfile True s
                  = (Inl ImportUrlExpected, s1))
       \<and> (\<forall>importUrlPath r2 s2.
             headers r ''x-import-url'' = Some importUrlPath \<and> importUrlPath \<noteq> []
             \<and> fetchCDNResource PIKA_CDN got importUrlPath s1 = (Inr r2, s2)
             \<and> statusCode r2 \<noteq> 200
            \<longrightarrow> resolveDependencyByName lookupUrl PIKA_CDN got installSpecifier packageSemver
                    lockfile True s
                  = (Inl (UnexpectedResponse (statusCode r2) (PIKA_CDN @ importUrlPath)), s2))"
  using assms
  by (simp add: resolve_lookup truthy_def template_def)

lemma lookupUrl_bar: "lookupUrl ''https://cdn'' ''bar'' ''^2.0.0'' = ''https://cdn/bar@^2.0.0''"
  by (simp add: lookupUrl_def startsWith_def template_def truthy_def)

lemma simple_semver_caret: "simple_semver ''^2.0.0''"
  by (simp add: simple_semver_def startsWith_def)

theorem pending_without_poll_or_rejected_poll_is_fatal_witness:
  "resolveDependencyByName lookupUrl ''https://cdn'' no_poll_location ''bar'' ''^2.0.0'' None True init
     = (Inl ImportUrlExpected, init\<lparr>requests := [''https://cdn/bar@^2.0.0'']\<rparr>)
   \<and> resolveDependencyByName lookupUrl ''https://cdn'' poll_rejected ''bar'' ''^2.0.0'' None True init
     = (Inl (UnexpectedResponse 500 ''https://cdn/new/bar@2.0.3''),
        init\<lparr>requests := [''https://cdn/bar@^2.0.0'', ''https://cdn/new/bar@2.0.3'']\<rparr>)"
proof -
  let ?L = "''https://cdn/bar@^2.0.0''"
  have pin: "lockfile_pin None ''bar'' = None"
    by (simp add: lockfile_pin_def)
  have a: "fetchCDNResource ''https://cdn'' no_poll_location
             (lookupUrl ''https://cdn'' ''bar'' ''^2.0.0'') init
           = (Inr (response 200 [(''x-import-status'', ''PENDING'')] ''''),
              init\<lparr>requests := [?L]\<rparr>)"
    by (simp add: lookupUrl_bar fetchCDNResource_def qualify_def startsWith_def init_def
          no_poll_location_def serve_def response_def has_max_age_def)
  have b: "fetchCDNResource ''https://cdn'' poll_rejected
             (lookupUrl ''https://cdn'' ''bar'' ''^2.0.0'') init
           = (Inr (response 200 [(''x-import-status'', ''PENDING''),
                                 (''x-import-url'', ''/new/bar@2.0.3'')] ''''),
              init\<lparr>requests := [?L]\<rparr>)"
    by (simp add: lookupUrl_bar fetchCDNResource_def qualify_def startsWith_def init_def
          poll_rejected_def serve_def response_def has_max_age_def)
  have c: "fetchCDNResource ''https://cdn'' poll_rejected ''/new/bar@2.0.3''
             (init\<lparr>requests := [?L]\<rparr>)
           = (Inr (response 500 [] ''Build error''),
              init\<lparr>requests := [?L, ''https://cdn/new/bar@2.0.3'']\<rparr>)"
    by (simp add: fetchCDNResource_def qualify_def startsWith_def init_def
          poll_rejected_def serve_def response_def has_max_age_def)
  have first: "resolveDependencyByName lookupUrl ''https://cdn'' no_poll_location ''bar'' ''^2.0.0''
                 None True init
               = (Inl ImportUrlExpected, init\<lparr>requests := [?L]\<rparr>)"
    using pending_without_poll_or_rejected_poll_is_fatal [OF pin simple_semver_caret a]
    by (simp add: response_def truthy_def)
  have second: "resolveDependencyByName lookupUrl ''https://cdn'' poll_rejected ''bar'' ''^2.0.0''
                  None True init
                = (Inl (UnexpectedResponse 500 ''https://cdn/new/bar@2.0.3''),
                   init\<lparr>requests := [?L, ''https://cdn/new/bar@2.0.3'']\<rparr>)"
    using pending_without_poll_or_rejected_poll_is_fatal [OF pin simple_semver_caret b] c
    by (simp add: response_def)
  from first second show ?thesis
    by simp
qed

section \<open>A lookup response without a build status\<close>

text \<open>
  Claim C10, as stated for every lookup, fails on the retried lookup: there
  \<open>canRetry\<close> is false, and a 200 response without \<open>x-import-status\<close> (and without
  \<open>x-import-url\<close>) ends the call with the build-failure error, not with the
  missing-header error, and without a poll. Below, the first lookup of \<open>bar\<close> is
  pending, the poll answers 200 and the second lookup comes back without any header;
  the same happens when the function is called with \<open>canRetry = false\<close>.
\<close>

theorem retried_lookup_without_status_counterexample:
  "resolveDependencyByName lookupUrl ''https://cdn'' unlabelled_after_poll ''bar'' ''^2.0.0'' None
     True init
     = (Inl (FailedToBuild ''bar'' ''^2.0.0''),
        init\<lparr>requests := [''https://cdn/bar@^2.0.0'', ''https://cdn/new/bar@2.0.3'',
                             ''https://cdn/bar@^2.0.0'']\<rparr>)
   \<and> resolveDependencyByName lookupUrl ''https://cdn'' no_status ''bar'' ''^2.0.0'' None False init
     = (Inl (FailedToBuild ''bar'' ''^2.0.0''), init\<lparr>requests := [''https://cdn/bar@^2.0.0'']\<rparr>)"
proof -
  have pin: "lockfile_pin None ''bar'' = None"
    by (simp add: lockfile_pin_def)
  note run = lookupUrl_bar fetchCDNResource_def qualify_def startsWith_def init_def
    unlabelled_after_poll_def never_built_def no_status_def serve_def response_def
    has_max_age_def truthy_def template_def Let_def
  have retried: "resolveDependencyByName lookupUrl ''https://cdn'' unlabelled_after_poll ''bar''
                   ''^2.0.0'' None False
                   (init\<lparr>requests := [''https://cdn/bar@^2.0.0'', ''https://cdn/new/bar@2.0.3'']\<rparr>)
                 = (Inl (FailedToBuild ''bar'' ''^2.0.0''),
                    init\<lparr>requests := [''https://cdn/bar@^2.0.0'', ''https://cdn/new/bar@2.0.3'',
                                         ''https://cdn/bar@^2.0.0'']\<rparr>)"
    by (simp add: resolve_lookup [OF pin simple_semver_caret] run)
  have whole: "resolveDependencyByName lookupUrl ''https://cdn'' unlabelled_after_poll ''bar''
                 ''^2.0.0'' None True init
               = resolveDependencyByName lookupUrl ''https://cdn'' unlabelled_after_poll ''bar''
                   ''^2.0.0'' None False
                   (init\<lparr>requests := [''https://cdn/bar@^2.0.0'', ''https://cdn/new/bar@2.0.3'']\<rparr>)"
    by (subst resolve_lookup [OF pin simple_semver_caret]) (simp add: run)
  have direct: "resolveDependencyByName lookupUrl ''https://cdn'' no_status ''bar'' ''^2.0.0'' None
                  False init
                = (Inl (FailedToBuild ''bar'' ''^2.0.0''),
                   init\<lparr>requests := [''https://cdn/bar@^2.0.0'']\<rparr>)"
    by (simp add: resolve_lookup [OF pin simple_semver_caret] run)
  from retried whole direct show ?thesis
    by simp
qed

text \<open>
  Claim C10, amended. Take a lookup (no pin, a range that passes validation), in either
  copy of the resolver, whose response has status 200 and no \<open>x-import-status\<close> header.
  The response is never returned as the result. While the retry is still permitted
  (\<open>canRetry = true\<close>) the call takes the pending path: it fails with the missing-header
  error when \<open>x-import-url\<close> is missing too (or empty); otherwise it polls that location
  once and, when the poll answers 200, the result is that of the retried call with
  \<open>canRetry = false\<close>. When the retry is spent (\<open>canRetry = false\<close>), such a response
  fails with the build-failure error.
\<close>

theorem missing_status_takes_pending_path:
  assumes "lockfile_pin lockfile installSpecifier = None"
    and "simple_semver packageSemver"
    and "fetchCDNResource PIKA_CDN got (mkUrl PIKA_CDN installSpecifier packageSemver) s
           = (Inr r, s1)"
    and "statusCode r = 200"
    and "headers r ''x-import-status'' = None"
  shows "resolveDependencyByName mkUrl PIKA_CDN got installSpecifier packageSemver lockfile True s
           = (if \<not> truthy (headers r ''x-import-url'')
              then (Inl ImportUrlExpected, s1)
              else
                (case fetchCDNResource PIKA_CDN got (template (headers r ''x-import-url'')) s1 of
                   (Inl err, s2) \<Rightarrow> (Inl err, s2)
                 | (Inr r2, s2) \<Rightarrow>
                     if statusCode r2 \<noteq> 200
                     then (Inl (UnexpectedResponse (statusCode r2)
                                  (PIKA_CDN @ template (headers r ''x-import-url''))), s2)
                     else resolveDependencyByName mkUrl PIKA_CDN got installSpecifier
                            packageSemver lockfile False s2))
       \<and> resolveDependencyByName mkUrl PIKA_CDN got installSpecifier packageSemver lockfile False s
           = (Inl (FailedToBuild installSpecifier packageSemver), s1)"
  using assms
  by (simp add: resolve_lookup)

theorem missing_status_takes_pending_path_witness:
  "resolveDependencyByName lookupUrl ''https://cdn'' no_status ''bar'' ''^2.0.0'' None True init
     = (Inl ImportUrlExpected, init\<lparr>requests := [''https://cdn/bar@^2.0.0'']\<rparr>)
   \<and> resolveDependencyByName lookupUrl ''https://cdn'' no_status_with_poll ''bar'' ''^2.0.0'' None
       True init
     = (Inl (FailedToBuild ''bar'' ''^2.0.0''),
        init\<lparr>requests := [''https://cdn/bar@^2.0.0'', ''https://cdn/new/bar@2.0.3'',
                             ''https://cdn/bar@^2.0.0'']\<rparr>)"
proof -
  let ?L = "''https://cdn/bar@^2.0.0''" and ?P = "''https://cdn/new/bar@2.0.3''"
  let ?r = "response 200 [(''x-import-url'', ''/new/bar@2.0.3'')] ''export default 2;''"
  have pin: "lockfile_pin None ''bar'' = None"
    by (simp add: lockfile_pin_def)
  have a: "fetchCDNResource ''https://cdn'' no_status
             (lookupUrl ''https://cdn'' ''bar'' ''^2.0.0'') init
           = (Inr (response 200 [] ''export default 2;''), init\<lparr>requests := [?L]\<rparr>)"
    by (simp add: lookupUrl_bar fetchCDNResource_def qualify_def startsWith_def init_def
          no_status_def serve_def response_def has_max_age_def)
  have b: "fetchCDNResource ''https://cdn'' no_status_with_poll
             (lookupUrl ''https://cdn'' ''bar'' ''^2.0.0'') init
           = (Inr ?r, init\<lparr>requests := [?L]\<rparr>)"
    by (simp add: lookupUrl_bar fetchCDNResource_def qualify_def startsWith_def init_def
          no_status_with_poll_def serve_def response_def has_max_age_def)
  have c: "fetchCDNResource ''https://cdn'' no_status_with_poll ''/new/bar@2.0.3''
             (init\<lparr>requests := [?L]\<rparr>)
           = (Inr (response 200 [] ''''), init\<lparr>requests := [?L, ?P]\<rparr>)"
    by (simp add: fetchCDNResource_def qualify_def startsWith_def init_def
          no_status_with_poll_def serve_def response_def has_max_age_def)
  have d: "fetchCDNResource ''https://cdn'' no_status_with_poll
             (lookupUrl ''https://cdn'' ''bar'' ''^2.0.0'') (init\<lparr>requests := [?L, ?P]\<rparr>)
           = (Inr ?r, init\<lparr>requests := [?L, ?P, ?L]\<rparr>)"
    by (simp add: lookupUrl_bar fetchCDNResource_def qualify_def startsWith_def init_def
          no_status_with_poll_def serve_def response_def has_max_age_def Let_def)
  have first: "resolveDependencyByName lookupUrl ''https://cdn'' no_status ''bar'' ''^2.0.0''
                 None True init
               = (Inl ImportUrlExpected, init\<lparr>requests := [?L]\<rparr>)"
    using missing_status_takes_pending_path [where mkUrl = lookupUrl, OF pin simple_semver_caret a]
    by (simp add: response_def truthy_def)
  have retried: "resolveDependencyByName lookupUrl ''https://cdn'' no_status_with_poll ''bar''
                   ''^2.0.0'' None False (init\<lparr>requests := [?L, ?P]\<rparr>)
                 = (Inl (FailedToBuild ''bar'' ''^2.0.0''), init\<lparr>requests := [?L, ?P, ?L]\<rparr>)"
    using missing_status_takes_pending_path [where mkUrl = lookupUrl, OF pin simple_semver_caret d]
    by (simp add: response_def)
  have second: "resolveDependencyByName lookupUrl ''https://cdn'' no_status_with_poll ''bar''
                  ''^2.0.0'' None True init
                = (Inl (FailedToBuild ''bar'' ''^2.0.0''), init\<lparr>requests := [?L, ?P, ?L]\<rparr>)"
    using missing_status_takes_pending_path [where mkUrl = lookupUrl, OF pin simple_semver_caret b] c retried
    by (simp add: response_def truthy_def template_def)
  from first second show ?thesis
    by simp
qed

section \<open>The retry bound\<close>

lemma qualify_lookupUrl: "qualify c (lookupUrl c sp sv) = lookupUrl c sp sv"
  by (simp add: qualify_def startsWith_def lookupUrl_def Let_def split: prod.splits)

lemma fetchCDNResource_subseq:
  assumes "fetchCDNResource c g u s = (r, s1)"
  shows "\<exists>xs. requests s1 = requests s @ xs \<and> subseq xs [qualify c u]"
  using fetchCDNResource_requests [OF assms] by auto

lemma resolve_not_simple:
  assumes "lockfile_pin lockfile sp = None" and "\<not> simple_semver sv"
  shows "snd (resolveDependencyByName mk c g sp sv lockfile b s) = s"
proof (cases "startsWith sv ''npm:@reactesm'' \<or> startsWith sv ''npm:@pika/react''")
  case True
  then show ?thesis
    using assms(1) by (simp add: resolve_react)
next
  case False
  with assms(2) have "includes_str sv '' '' \<or> includes_str sv '':''"
    by (simp add: simple_semver_def)
  with False assms(1) show ?thesis
    by (simp add: resolve_complex)
qed

text \<open>The retried call ends in the state its one lookup leaves: it cannot poll or retry.\<close>

lemma resolve_retried_state:
  assumes "lockfile_pin lockfile sp = None" and "simple_semver sv"
  shows "snd (resolveDependencyByName mk c g sp sv lockfile False s)
           = snd (fetchCDNResource c g (mk c sp sv) s)"
proof -
  obtain r s1 where f: "fetchCDNResource c g (mk c sp sv) s = (r, s1)"
    by (cases "fetchCDNResource c g (mk c sp sv) s")
  then show ?thesis
    using assms by (cases r) (simp_all add: resolve_lookup)
qed

text \<open>
  The state in which the first call ends, with the recursion unfolded: after the
  lookup, after the poll of the location the lookup's response names, or after the
  second lookup.
\<close>

lemma resolve_first_state:
  assumes "lockfile_pin lockfile sp = None" and "simple_semver sv"
  shows "snd (resolveDependencyByName mk c g sp sv lockfile True s)
           = (case fetchCDNResource c g (mk c sp sv) s of
                (Inl err, s1) \<Rightarrow> s1
              | (Inr r1, s1) \<Rightarrow>
                  if statusCode r1 = 200
                     \<and> headers r1 ''x-import-status'' \<noteq> Some ''SUCCESS''
                     \<and> headers r1 ''x-import-status'' \<noteq> Some ''FAIL''
                     \<and> truthy (headers r1 ''x-import-url'')
                  then (case fetchCDNResource c g (template (headers r1 ''x-import-url'')) s1 of
                          (Inl err, s2) \<Rightarrow> s2
                        | (Inr r2, s2) \<Rightarrow>
                            if statusCode r2 = 200
                            then snd (fetchCDNResource c g (mk c sp sv) s2)
                            else s2)
                  else s1)"
proof -
  obtain r s1 where f: "fetchCDNResource c g (mk c sp sv) s = (r, s1)"
    by (cases "fetchCDNResource c g (mk c sp sv) s")
  show ?thesis
  proof (cases r)
    case (Inl err)
    with f assms show ?thesis
      by (simp add: resolve_lookup)
  next
    case (Inr r1)
    let ?p = "template (headers r1 ''x-import-url'')"
    obtain r2 s2 where p: "fetchCDNResource c g ?p s1 = (r2, s2)"
      by (cases "fetchCDNResource c g ?p s1")
    from f Inr p assms resolve_retried_state [OF assms, of mk c g s2] show ?thesis
      by (cases r2) (simp_all add: resolve_lookup)
  qed
qed

text \<open>
  Claim C4. Write \<open>L\<close> for the lookup URL. A call with a pin is the URL resolver's call
  and makes no lookup; a call whose range fails validation leaves the state as it was.
  Otherwise:
  \<^item> the retried call (\<open>canRetry = false\<close>) ends in the very state its one call of
    \<open>fetchCDNResource\<close> on \<open>L\<close> leaves: one lookup, no poll, no further retry;
  \<^item> the first call (\<open>canRetry = true\<close>) ends in the state left by its lookup, or, only
    when that lookup answered 200 with a status other than \<open>SUCCESS\<close> and \<open>FAIL\<close> and with a
    poll location, in the state left by the one poll of that location, or, only when
    that poll answered 200, in the state left by the second lookup. So \<open>fetchCDNResource\<close>
    is called on \<open>L\<close> twice at most and on the poll location once at most;
  \<^item> hence the requests the call adds to the network are a subsequence of \<open>L\<close> alone, or of
    \<open>L, P, L\<close> where \<open>P\<close> is the poll location the first response named (a call answered by
    the in-process memo adds no request);
  \<^item> when the first lookup answers 200 and \<open>PENDING\<close> with a poll location, the poll
    answers 200 and the second lookup answers 200, the call returns the second
    response's body and pinned URL if its status is \<open>SUCCESS\<close>, and fails with the
    build-failure error if it is \<open>PENDING\<close> again.
\<close>

theorem single_retry_bound:
  "(\<forall>url. lockfile_pin lockfile installSpecifier = Some url \<longrightarrow>
      resolveDependencyByName lookupUrl PIKA_CDN got installSpecifier packageSemver lockfile
        canRetry s
      = resolveDependencyByUrl PIKA_CDN got url s)
   \<and> (lockfile_pin lockfile installSpecifier = None \<and> \<not> simple_semver packageSemver \<longrightarrow>
      snd (resolveDependencyByName lookupUrl PIKA_CDN got installSpecifier packageSemver lockfile
             canRetry s) = s)
   \<and> (lockfile_pin lockfile installSpecifier = None \<and> simple_semver packageSemver \<longrightarrow>
      snd (resolveDependencyByName lookupUrl PIKA_CDN got installSpecifier packageSemver lockfile
             False s)
      = snd (fetchCDNResource PIKA_CDN got (lookupUrl PIKA_CDN installSpecifier packageSemver) s)
      \<and> snd (resolveDependencyByName lookupUrl PIKA_CDN got installSpecifier packageSemver
                lockfile True s)
        = (case fetchCDNResource PIKA_CDN got
                  (lookupUrl PIKA_CDN installSpecifier packageSemver) s of
             (Inl err, s1) \<Rightarrow> s1
           | (Inr r1, s1) \<Rightarrow>
               if statusCode r1 = 200
                  \<and> headers r1 ''x-import-status'' \<noteq> Some ''SUCCESS''
                  \<and> headers r1 ''x-import-status'' \<noteq> Some ''FAIL''
                  \<and> truthy (headers r1 ''x-import-url'')
               then (case fetchCDNResource PIKA_CDN got
                            (template (headers r1 ''x-import-url'')) s1 of
                       (Inl err, s2) \<Rightarrow> s2
                     | (Inr r2, s2) \<Rightarrow>
                         if statusCode r2 = 200
                         then snd (fetchCDNResource PIKA_CDN got
                                     (lookupUrl PIKA_CDN installSpecifier packageSemver) s2)
                         else s2)
               else s1)
      \<and> (\<exists>xs.
            requests (snd (resolveDependencyByName lookupUrl PIKA_CDN got installSpecifier
                             packageSemver lockfile True s)) = requests s @ xs
            \<and> (subseq xs [lookupUrl PIKA_CDN installSpecifier packageSemver]
               \<or> (\<exists>r1 importUrlPath.
                     fst (fetchCDNResource PIKA_CDN got
                            (lookupUrl PIKA_CDN installSpecifier packageSemver) s) = Inr r1
                     \<and> statusCode r1 = 200
                     \<and> headers r1 ''x-import-url'' = Some importUrlPath \<and> importUrlPath \<noteq> []
                     \<and> subseq xs [lookupUrl PIKA_CDN installSpecifier packageSemver,
                                   qualify PIKA_CDN importUrlPath,
                                   lookupUrl PIKA_CDN installSpecifier packageSemver]))))
   \<and> (\<forall>r1 s1 importUrlPath r2 s2 r3 s3.
        lockfile_pin lockfile installSpecifier = None \<and> simple_semver packageSemver
        \<and> fetchCDNResource PIKA_CDN got (lookupUrl PIKA_CDN installSpecifier packageSemver) s
            = (Inr r1, s1)
        \<and> statusCode r1 = 200
        \<and> headers r1 ''x-import-status'' = Some ''PENDING''
        \<and> headers r1 ''x-import-url'' = Some importUrlPath \<and> importUrlPath \<noteq> []
        \<and> fetchCDNResource PIKA_CDN got importUrlPath s1 = (Inr r2, s2)
        \<and> statusCode r2 = 200
        \<and> fetchCDNResource PIKA_CDN got (lookupUrl PIKA_CDN installSpecifier packageSemver) s2
            = (Inr r3, s3)
        \<and> statusCode r3 = 200
        \<longrightarrow>
          (headers r3 ''x-import-status'' = Some ''SUCCESS'' \<longrightarrow>
             resolveDependencyByName lookupUrl PIKA_CDN got installSpecifier packageSemver lockfile
               True s
             = (Inr \<lparr>res_body = body r3,
                     pinnedUrl = Some (PIKA_CDN @ template (headers r3 ''x-pinned-url''))\<rparr>, s3))
          \<and> (headers r3 ''x-import-status'' = Some ''PENDING'' \<longrightarrow>
             resolveDependencyByName lookupUrl PIKA_CDN got installSpecifier packageSemver lockfile
               True s
             = (Inl (FailedToBuild installSpecifier packageSemver), s3)))"
  (is "?pinned \<and> ?invalid \<and> ?lookup \<and> ?scenario")
proof (intro conjI)
  let ?L = "lookupUrl PIKA_CDN installSpecifier packageSemver"
  show ?pinned
    by (simp add: resolve_pin)
  show ?invalid
    by (simp add: resolve_not_simple)
  show ?scenario
    by (auto simp: resolve_lookup [where b = True] resolve_lookup [where b = False]
          truthy_def template_def)
  show ?lookup
  proof (intro impI conjI)
    assume hyp: "lockfile_pin lockfile installSpecifier = None \<and> simple_semver packageSemver"
    then have pin: "lockfile_pin lockfile installSpecifier = None"
      and simple: "simple_semver packageSemver"
      by simp_all
    show "snd (resolveDependencyByName lookupUrl PIKA_CDN got installSpecifier packageSemver
                 lockfile False s)
          = snd (fetchCDNResource PIKA_CDN got ?L s)"
      using pin simple by (rule resolve_retried_state)
    show first: "snd (resolveDependencyByName lookupUrl PIKA_CDN got installSpecifier packageSemver
                lockfile True s)
        = (case fetchCDNResource PIKA_CDN got ?L s of
             (Inl err, s1) \<Rightarrow> s1
           | (Inr r1, s1) \<Rightarrow>
               if statusCode r1 = 200
                  \<and> headers r1 ''x-import-status'' \<noteq> Some ''SUCCESS''
                  \<and> headers r1 ''x-import-status'' \<noteq> Some ''FAIL''
                  \<and> truthy (headers r1 ''x-import-url'')
               then (case fetchCDNResource PIKA_CDN got
                            (template (headers r1 ''x-import-url'')) s1 of
                       (Inl err, s2) \<Rightarrow> s2
                     | (Inr r2, s2) \<Rightarrow>
                         if statusCode r2 = 200
                         then snd (fetchCDNResource PIKA_CDN got ?L s2)
                         else s2)
               else s1)"
      using pin simple by (rule resolve_first_state)
    obtain r s1 where f: "fetchCDNResource PIKA_CDN got ?L s = (r, s1)"
      by (cases "fetchCDNResource PIKA_CDN got ?L s")
    from fetchCDNResource_subseq [OF f]
    obtain xs where xs: "requests s1 = requests s @ xs" "subseq xs [?L]"
      by (auto simp: qualify_lookupUrl)
    let ?final = "snd (resolveDependencyByName lookupUrl PIKA_CDN got installSpecifier
                         packageSemver lockfile True s)"
    show "\<exists>xs. requests ?final = requests s @ xs
            \<and> (subseq xs [?L]
               \<or> (\<exists>r1 importUrlPath.
                     fst (fetchCDNResource PIKA_CDN got ?L s) = Inr r1
                     \<and> statusCode r1 = 200
                     \<and> headers r1 ''x-import-url'' = Some importUrlPath \<and> importUrlPath \<noteq> []
                     \<and> subseq xs [?L, qualify PIKA_CDN importUrlPath, ?L]))"
    proof (cases "?final = s1")
      case True
      with xs show ?thesis
        by auto
    next
      case polled: False
      with first f obtain r1 where r: "r = Inr r1" and ok: "statusCode r1 = 200"
        and url: "truthy (headers r1 ''x-import-url'')"
        by (cases r) (auto split: if_splits)
      from url obtain p where p: "headers r1 ''x-import-url'' = Some p" "p \<noteq> []"
        by (auto simp: truthy_def split: option.splits)
      obtain r2 s2 where poll: "fetchCDNResource PIKA_CDN got p s1 = (r2, s2)"
        by (cases "fetchCDNResource PIKA_CDN got p s1")
      from fetchCDNResource_subseq [OF poll]
      obtain ys where ys: "requests s2 = requests s1 @ ys" "subseq ys [qualify PIKA_CDN p]"
        by blast
      obtain r3 s3 where again: "fetchCDNResource PIKA_CDN got ?L s2 = (r3, s3)"
        by (cases "fetchCDNResource PIKA_CDN got ?L s2")
      from fetchCDNResource_subseq [OF again]
      obtain zs where zs: "requests s3 = requests s2 @ zs" "subseq zs [?L]"
        by (auto simp: qualify_lookupUrl)
      have three: "subseq (xs @ ys @ zs) ([?L] @ [qualify PIKA_CDN p] @ [?L])"
        using xs(2) ys(2) zs(2) by (intro list_emb_append_mono)
      have two: "subseq (xs @ ys) ([?L] @ [qualify PIKA_CDN p] @ [?L])"
        using list_emb_append_mono
          [OF xs(2) list_emb_append_mono [OF ys(2) list_emb_Nil [of "(=)" "[?L]"]]]
        by simp
      from first f r poll again polled have "?final = s2 \<or> ?final = s3"
        by (cases r2) (auto simp: p template_def split: if_splits)
      then show ?thesis
      proof
        assume "?final = s2"
        with xs(1) ys(1) two f r ok p show ?thesis
          by (intro exI [of _ "xs @ ys"]) auto
      next
        assume "?final = s3"
        with xs(1) ys(1) zs(1) three f r ok p show ?thesis
          by (intro exI [of _ "xs @ ys @ zs"]) auto
      qed
    qed
  qed
qed

theorem single_retry_bound_witness:
  "resolveDependencyByName lookupUrl ''https://cdn'' foo_cdn ''foo'' ''^1.0.0'' (Some foo_lockfile)
     True init
     = resolveDependencyByUrl ''https://cdn'' foo_cdn ''https://cdn/foo@1.0.0'' init
   \<and> snd (resolveDependencyByName lookupUrl ''https://cdn'' offline ''b'' ''1 2'' None True init)
     = init
   \<and> snd (resolveDependencyByName lookupUrl ''https://cdn'' (serve []) ''bar'' ''^2.0.0'' None True
            init)
     = init\<lparr>requests := [''https://cdn/bar@^2.0.0'']\<rparr>
   \<and> snd (resolveDependencyByName lookupUrl ''https://cdn'' never_built ''bar'' ''^2.0.0'' None False
            init)
     = init\<lparr>requests := [''https://cdn/bar@^2.0.0'']\<rparr>
   \<and> resolveDependencyByName lookupUrl ''https://cdn'' built_after_poll ''bar'' ''^2.0.0'' None True
       init
     = (Inr \<lparr>res_body = ''export default 2;'',
             pinnedUrl = Some ''https://cdn/pin/bar@v2.0.3-abc/bar.js''\<rparr>,
        init\<lparr>requests := [''https://cdn/bar@^2.0.0'', ''https://cdn/new/bar@2.0.3'',
                             ''https://cdn/bar@^2.0.0'']\<rparr>)
   \<and> resolveDependencyByName lookupUrl ''https://cdn'' never_built ''bar'' ''^2.0.0'' None True init
     = (Inl (FailedToBuild ''bar'' ''^2.0.0''),
        init\<lparr>requests := [''https://cdn/bar@^2.0.0'', ''https://cdn/new/bar@2.0.3'',
                             ''https://cdn/bar@^2.0.0'']\<rparr>)"
proof -
  let ?L = "''https://cdn/bar@^2.0.0''" and ?P = "''https://cdn/new/bar@2.0.3''"
  let ?pending = "response 200 [(''x-import-status'', ''PENDING''),
                                (''x-import-url'', ''/new/bar@2.0.3'')] ''''"
  let ?done = "response 200 [(''x-import-status'', ''SUCCESS''),
                             (''x-pinned-url'', ''/pin/bar@v2.0.3-abc/bar.js'')]
                 ''export default 2;''"
  note run = lookupUrl_bar fetchCDNResource_def qualify_def startsWith_def init_def
    built_after_poll_def never_built_def serve_def response_def has_max_age_def Let_def
  have pin: "lockfile_pin None ''bar'' = None" "lockfile_pin None ''b'' = None"
    by (simp_all add: lockfile_pin_def)
  have pinned: "lockfile_pin (Some foo_lockfile) ''foo'' = Some ''https://cdn/foo@1.0.0''"
    by (simp add: lockfile_pin_def foo_lockfile_def truthy_def)
  have complex: "\<not> simple_semver ''1 2''"
    by (simp add: simple_semver_def)
  have missing: "fetchCDNResource ''https://cdn'' (serve [])
                   (lookupUrl ''https://cdn'' ''bar'' ''^2.0.0'') init
                 = (Inr (response 404 [] ''Not Found''), init\<lparr>requests := [?L]\<rparr>)"
    by (simp add: run)
  have a: "fetchCDNResource ''https://cdn'' built_after_poll
             (lookupUrl ''https://cdn'' ''bar'' ''^2.0.0'') init
           = (Inr ?pending, init\<lparr>requests := [?L]\<rparr>)"
    by (simp add: run)
  have b: "fetchCDNResource ''https://cdn'' built_after_poll ''/new/bar@2.0.3''
             (init\<lparr>requests := [?L]\<rparr>)
           = (Inr (response 200 [] ''''), init\<lparr>requests := [?L, ?P]\<rparr>)"
    by (simp add: run)
  have c: "fetchCDNResource ''https://cdn'' built_after_poll
             (lookupUrl ''https://cdn'' ''bar'' ''^2.0.0'') (init\<lparr>requests := [?L, ?P]\<rparr>)
           = (Inr ?done, init\<lparr>requests := [?L, ?P, ?L]\<rparr>)"
    by (simp add: run)
  have a': "fetchCDNResource ''https://cdn'' never_built
              (lookupUrl ''https://cdn'' ''bar'' ''^2.0.0'') init
            = (Inr ?pending, init\<lparr>requests := [?L]\<rparr>)"
    by (simp add: run)
  have b': "fetchCDNResource ''https://cdn'' never_built ''/new/bar@2.0.3''
              (init\<lparr>requests := [?L]\<rparr>)
            = (Inr (response 200 [] ''''), init\<lparr>requests := [?L, ?P]\<rparr>)"
    by (simp add: run)
  have c': "fetchCDNResource ''https://cdn'' never_built
              (lookupUrl ''https://cdn'' ''bar'' ''^2.0.0'') (init\<lparr>requests := [?L, ?P]\<rparr>)
            = (Inr ?pending, init\<lparr>requests := [?L, ?P, ?L]\<rparr>)"
    by (simp add: run)
  have w1: "resolveDependencyByName lookupUrl ''https://cdn'' foo_cdn ''foo'' ''^1.0.0''
              (Some foo_lockfile) True init
            = resolveDependencyByUrl ''https://cdn'' foo_cdn ''https://cdn/foo@1.0.0'' init"
    using single_retry_bound [of "Some foo_lockfile" "''foo''" "''https://cdn''" foo_cdn
        "''^1.0.0''" True init, THEN conjunct1] pinned
    by simp
  have w2: "snd (resolveDependencyByName lookupUrl ''https://cdn'' offline ''b'' ''1 2'' None True
                   init) = init"
    using single_retry_bound [of None "''b''" "''https://cdn''" offline "''1 2''" True init,
        THEN conjunct2, THEN conjunct1] pin complex
    by simp
  have w3: "snd (resolveDependencyByName lookupUrl ''https://cdn'' (serve []) ''bar'' ''^2.0.0'' None
                   True init)
            = init\<lparr>requests := [?L]\<rparr>"
    using single_retry_bound [of None "''bar''" "''https://cdn''" "serve []" "''^2.0.0''" True
        init, THEN conjunct2, THEN conjunct2, THEN conjunct1] pin simple_semver_caret
    by (simp add: missing response_def)
  have w4: "snd (resolveDependencyByName lookupUrl ''https://cdn'' never_built ''bar'' ''^2.0.0''
                   None False init)
            = init\<lparr>requests := [?L]\<rparr>"
    using single_retry_bound [of None "''bar''" "''https://cdn''" never_built "''^2.0.0''" True
        init, THEN conjunct2, THEN conjunct2, THEN conjunct1] pin simple_semver_caret
    by (simp add: a')
  have w5: "resolveDependencyByName lookupUrl ''https://cdn'' built_after_poll ''bar'' ''^2.0.0''
                 None True init
               = (Inr \<lparr>res_body = ''export default 2;'',
                       pinnedUrl = Some ''https://cdn/pin/bar@v2.0.3-abc/bar.js''\<rparr>,
                  init\<lparr>requests := [?L, ?P, ?L]\<rparr>)"
    using single_retry_bound [of None "''bar''" "''https://cdn''" built_after_poll "''^2.0.0''"
        True init, THEN conjunct2, THEN conjunct2, THEN conjunct2, rule_format,
        of ?pending "init\<lparr>requests := [?L]\<rparr>" "''/new/bar@2.0.3''" "response 200 [] ''''"
           "init\<lparr>requests := [?L, ?P]\<rparr>" ?done "init\<lparr>requests := [?L, ?P, ?L]\<rparr>"]
      pin simple_semver_caret a b c
    by (simp add: response_def template_def)
  have w6: "resolveDependencyByName lookupUrl ''https://cdn'' never_built ''bar'' ''^2.0.0''
                 None True init
               = (Inl (FailedToBuild ''bar'' ''^2.0.0''), init\<lparr>requests := [?L, ?P, ?L]\<rparr>)"
    using single_retry_bound [of None "''bar''" "''https://cdn''" never_built "''^2.0.0''"
        True init, THEN conjunct2, THEN conjunct2, THEN conjunct2, rule_format,
        of ?pending "init\<lparr>requests := [?L]\<rparr>" "''/new/bar@2.0.3''" "response 200 [] ''''"
           "init\<lparr>requests := [?L, ?P]\<rparr>" ?pending "init\<lparr>requests := [?L, ?P, ?L]\<rparr>"]
      pin simple_semver_caret a' b' c'
    by (simp add: response_def)
  from w1 w2 w3 w4 w5 w6 show ?thesis
    by simp
qed

section \<open>Resolving the same URL twice\<close>

lemma resolveDependencyByUrl_hit:
  "cacache s (qualify c u) = Some e \<Longrightarrow>
   resolveDependencyByUrl c g u s
     = (Inr \<lparr>res_body = data e, pinnedUrl = meta_pinnedUrl (metadata e)\<rparr>, s)"
  by (simp add: resolveDependencyByUrl_def)

lemma resolveDependencyByUrl_miss:
  "cacache s (qualify c u) = None \<Longrightarrow>
   resolveDependencyByUrl c g u s
     = (case fetchCDNResource c g (qualify c u) s of
          (Inl err, s1) \<Rightarrow> (Inl err, s1)
        | (Inr r, s1) \<Rightarrow>
            if statusCode r \<noteq> 200
            then (Inl (FailedToResolve (statusCode r) (qualify c u) (body r)), s1)
            else (Inr \<lparr>res_body = body r, pinnedUrl = Some (qualify c u)\<rparr>,
                  if has_max_age (headers r)
                  then s1\<lparr>cacache := (cacache s1)(qualify c u \<mapsto>
                         \<lparr>data = body r,
                          metadata = \<lparr>meta_pinnedUrl = None,
                                      meta_installUrl = Some (qualify c u),
                                      meta_typesUrl =
                                        (if truthy (headers r ''x-typescript-types'')
                                         then Some (c @ template (headers r ''x-typescript-types''))
                                         else headers r ''x-typescript-types''),
                                      meta_headers = None, meta_statusCode = None,
                                      meta_freshUntil = None\<rparr>\<rparr>)\<rparr>
                  else s1))"
  by (simp add: resolveDependencyByUrl_def Let_def split: prod.splits sum.splits)

text \<open>
  Claim C7, as stated, fails: a response is written to the store and to the memo only
  when its \<open>cache-control\<close> header contains \<open>max-age=\<close>. Against a CDN that sends no such
  header, the second call for \<open>/x.js\<close> makes a second request, and here gets another
  body.
\<close>

theorem second_call_requests_again_counterexample:
  "resolveDependencyByUrl ''https://cdn'' uncacheable ''/x.js'' init
     = (Inr \<lparr>res_body = ''export default 1;'', pinnedUrl = Some ''https://cdn/x.js''\<rparr>,
        init\<lparr>requests := [''https://cdn/x.js'']\<rparr>)
   \<and> resolveDependencyByUrl ''https://cdn'' uncacheable ''/x.js''
       (init\<lparr>requests := [''https://cdn/x.js'']\<rparr>)
     = (Inr \<lparr>res_body = ''export default 2;'', pinnedUrl = Some ''https://cdn/x.js''\<rparr>,
        init\<lparr>requests := [''https://cdn/x.js'', ''https://cdn/x.js'']\<rparr>)"
  by (simp add: resolveDependencyByUrl_def fetchCDNResource_def qualify_def startsWith_def
        init_def uncacheable_def response_def has_max_age_def truthy_def Let_def)

text \<open>
  Claim C7, amended. If a call of \<open>resolveDependencyByUrl\<close> succeeds and the URL (qualified
  by the origin) was in the store or in the memo before the call, or the response the
  network gave declares \<open>max-age=\<close> in its \<open>cache-control\<close> header, then a second call
  straight after it succeeds with the same body and leaves the whole state as the first
  call left it: no request is made.
\<close>

theorem cached_url_resolves_again_without_request:
  assumes "resolveDependencyByUrl PIKA_CDN got installUrl s = (Inr r1, s1)"
    and "cacache s (qualify PIKA_CDN installUrl) \<noteq> None
         \<or> inMemoryCDNCache s (qualify PIKA_CDN installUrl) \<noteq> None
         \<or> (\<exists>resp. got (requests s) (qualify PIKA_CDN installUrl) = Inr resp
                    \<and> has_max_age (headers resp))"
  shows "\<exists>r2. resolveDependencyByUrl PIKA_CDN got installUrl s1 = (Inr r2, s1)
              \<and> res_body r2 = res_body r1"
proof -
  let ?U = "qualify PIKA_CDN installUrl"
  show ?thesis
  proof (cases "cacache s ?U")
    case (Some cachedResult)
    with assms(1) show ?thesis
      by (auto simp: resolveDependencyByUrl_hit)
  next
    case None
    obtain f s' where f: "fetchCDNResource PIKA_CDN got ?U s = (f, s')"
      by (cases "fetchCDNResource PIKA_CDN got ?U s")
    with assms(1) None obtain resp where resp: "f = Inr resp" "statusCode resp = 200"
      by (cases f) (auto simp: resolveDependencyByUrl_miss split: if_splits)
    show ?thesis
    proof (cases "has_max_age (headers resp)")
      case True
      with assms(1) None f resp have "cacache s1 ?U \<noteq> None" "res_body r1 = body resp"
        "\<forall>e. cacache s1 ?U = Some e \<longrightarrow> data e = body resp"
        by (auto simp: resolveDependencyByUrl_miss Let_def)
      then show ?thesis
        by (auto simp: resolveDependencyByUrl_hit)
    next
      case False
      with assms(2) None f resp have memo: "inMemoryCDNCache s ?U = Some resp" and same: "s' = s"
        by (auto simp: fetchCDNResource_def Let_def qualify_idem split: option.splits)
      from assms(1) None f resp False same have "s1 = s"
        by (simp add: resolveDependencyByUrl_miss Let_def)
      with assms(1) show ?thesis
        by simp
    qed
  qed
qed

theorem cached_url_resolves_again_without_request_witness:
  "\<exists>r2. resolveDependencyByUrl ''https://cdn'' foo_cdn ''/foo@1.0.0'' foo_cached = (Inr r2, foo_cached)
        \<and> res_body r2 = ''export default 1;''"
proof -
  have first: "resolveDependencyByUrl ''https://cdn'' foo_cdn ''/foo@1.0.0'' init
      = (Inr \<lparr>res_body = ''export default 1;'', pinnedUrl = Some ''https://cdn/foo@1.0.0''\<rparr>,
         foo_cached)"
    by (simp add: resolveDependencyByUrl_def fetchCDNResource_def qualify_def startsWith_def
          init_def foo_cdn_def foo_cached_def serve_def response_def has_max_age_def truthy_def
          Let_def)
  have cacheable: "cacache init (qualify ''https://cdn'' ''/foo@1.0.0'') \<noteq> None
         \<or> inMemoryCDNCache init (qualify ''https://cdn'' ''/foo@1.0.0'') \<noteq> None
         \<or> (\<exists>resp. foo_cdn (requests init) (qualify ''https://cdn'' ''/foo@1.0.0'') = Inr resp
                    \<and> has_max_age (headers resp))"
    by (simp add: qualify_def startsWith_def init_def foo_cdn_def serve_def response_def
          has_max_age_def)
  from cached_url_resolves_again_without_request [OF first cacheable] show ?thesis
    by simp
qed

section \<open>The pinned URL of a resolution\<close>

text \<open>
  On every successful path but the hit in the store, the pinned URL starts with the
  origin: a miss returns the qualified URL itself, a lookup returns the origin followed
  by the \<open>x-pinned-url\<close> header.
\<close>

lemma pinnedUrl_on_miss:
  assumes "cacache s (qualify c u) = None"
    and "resolveDependencyByUrl c g u s = (Inr r, s1)"
  shows "pinnedUrl r = Some (qualify c u)"
proof -
  obtain f s' where f: "fetchCDNResource c g (qualify c u) s = (f, s')"
    by (cases "fetchCDNResource c g (qualify c u) s")
  with assms show ?thesis
    by (cases f) (auto simp: resolveDependencyByUrl_miss split: if_splits)
qed

lemma pinnedUrl_on_retried_lookup:
  assumes "lockfile_pin lockfile sp = None"
    and "resolveDependencyByName mk c g sp sv lockfile False s = (Inr r, s1)"
  shows "\<exists>p. pinnedUrl r = Some (c @ p)"
proof -
  have simple: "simple_semver sv"
    using assms resolve_react [OF assms(1), of sv mk c g False s]
      resolve_complex [OF assms(1), of sv mk c g False s]
    by (auto simp: simple_semver_def)
  obtain f s' where f: "fetchCDNResource c g (mk c sp sv) s = (f, s')"
    by (cases "fetchCDNResource c g (mk c sp sv) s")
  with assms simple show ?thesis
    by (cases f) (auto simp: resolve_lookup split: if_splits)
qed

lemma pinnedUrl_on_lookup:
  assumes "lockfile_pin lockfile sp = None"
    and "resolveDependencyByName mk c g sp sv lockfile b s = (Inr r, s1)"
  shows "\<exists>p. pinnedUrl r = Some (c @ p)"
proof (cases b)
  case False
  with assms show ?thesis
    by (auto dest: pinnedUrl_on_retried_lookup)
next
  case True
  have simple: "simple_semver sv"
    using assms resolve_react [OF assms(1), of sv mk c g b s]
      resolve_complex [OF assms(1), of sv mk c g b s]
    by (auto simp: simple_semver_def)
  obtain f s' where f: "fetchCDNResource c g (mk c sp sv) s = (f, s')"
    by (cases "fetchCDNResource c g (mk c sp sv) s")
  show ?thesis
  proof (cases f)
    case (Inl err)
    with assms simple f True show ?thesis
      by (simp add: resolve_lookup)
  next
    case (Inr resp)
    let ?p = "template (headers resp ''x-import-url'')"
    obtain f2 s2 where f2: "fetchCDNResource c g ?p s' = (f2, s2)"
      by (cases "fetchCDNResource c g ?p s'")
    from assms simple f True Inr f2
    have "(\<exists>p. pinnedUrl r = Some (c @ p))
          \<or> resolveDependencyByName mk c g sp sv lockfile False s2 = (Inr r, s1)"
      by (cases f2) (auto simp: resolve_lookup split: if_splits)
    with assms(1) show ?thesis
      by (auto dest: pinnedUrl_on_retried_lookup)
  qed
qed

text \<open>
  The hit in the store returns the \<open>pinnedUrl\<close> property of the stored metadata, and the
  entry \<open>resolveDependencyByUrl\<close> writes has no such property: it stores the URL under
  \<open>installUrl\<close>. So a URL resolved a second time comes back with \<open>pinnedUrl\<close> undefined.
\<close>

lemma pinnedUrl_undefined_on_own_entry:
  assumes "cacache s (qualify c u) = None"
    and "resolveDependencyByUrl c g u s = (Inr r1, s1)"
    and "cacache s1 (qualify c u) \<noteq> None"
  shows "resolveDependencyByUrl c g u s1 = (Inr \<lparr>res_body = res_body r1, pinnedUrl = None\<rparr>, s1)"
proof -
  obtain f s' where f: "fetchCDNResource c g (qualify c u) s = (f, s')"
    by (cases "fetchCDNResource c g (qualify c u) s")
  from fetchCDNResource_cacache [OF f] assms(1) have "cacache s' (qualify c u) = None"
    by simp
  with assms f obtain e where "cacache s1 (qualify c u) = Some e" "data e = res_body r1"
    "meta_pinnedUrl (metadata e) = None"
    by (cases f) (auto simp: resolveDependencyByUrl_miss split: if_splits)
  then show ?thesis
    by (simp add: resolveDependencyByUrl_hit)
qed

text \<open>
  Claim C1 fails on the code. Resolving \<open>https://cdn/foo@1.0.0\<close> in a fresh process
  returns it as the pinned URL and writes the response to the store; resolving it again,
  directly or through the pin of the lockfile, hits the store and returns \<open>undefined\<close>
  (\<open>None\<close>) as the pinned URL.
\<close>

theorem store_hit_returns_undefined_pinnedUrl:
  "resolveDependencyByUrl ''https://cdn'' foo_cdn ''https://cdn/foo@1.0.0'' init
     = (Inr \<lparr>res_body = ''export default 1;'', pinnedUrl = Some ''https://cdn/foo@1.0.0''\<rparr>,
        foo_cached)
   \<and> resolveDependencyByUrl ''https://cdn'' foo_cdn ''https://cdn/foo@1.0.0'' foo_cached
     = (Inr \<lparr>res_body = ''export default 1;'', pinnedUrl = None\<rparr>, foo_cached)
   \<and> resolveDependencyByName lookupUrl ''https://cdn'' foo_cdn ''foo'' ''^1.0.0''
       (Some foo_lockfile) True foo_cached
     = (Inr \<lparr>res_body = ''export default 1;'', pinnedUrl = None\<rparr>, foo_cached)"
proof -
  have pin: "lockfile_pin (Some foo_lockfile) ''foo'' = Some ''https://cdn/foo@1.0.0''"
    by (simp add: lockfile_pin_def foo_lockfile_def truthy_def)
  have first: "resolveDependencyByUrl ''https://cdn'' foo_cdn ''https://cdn/foo@1.0.0'' init
     = (Inr \<lparr>res_body = ''export default 1;'', pinnedUrl = Some ''https://cdn/foo@1.0.0''\<rparr>,
        foo_cached)"
    by (simp add: resolveDependencyByUrl_def fetchCDNResource_def qualify_def startsWith_def
          init_def foo_cdn_def foo_cached_def serve_def response_def has_max_age_def truthy_def
          Let_def)
  have again: "resolveDependencyByUrl ''https://cdn'' foo_cdn ''https://cdn/foo@1.0.0'' foo_cached
     = (Inr \<lparr>res_body = ''export default 1;'', pinnedUrl = None\<rparr>, foo_cached)"
    by (simp add: resolveDependencyByUrl_def qualify_def startsWith_def foo_cached_def Let_def)
  from first again resolve_pin [OF pin, of lookupUrl "''https://cdn''" foo_cdn "''^1.0.0''" True
      foo_cached]
  show ?thesis
    by simp
qed

section \<open>The lookup URL\<close>

text \<open>The two examples of claim C3, with one segment after the package name.\<close>

lemma lookupUrl_one_segment:
  "lookupUrl c ''@scope/pkg/sub'' ''2.1.0'' = c @ ''/@scope/pkg@2.1.0/sub''"
  "lookupUrl c ''pkg/sub'' ''2.1.0'' = c @ ''/pkg@2.1.0/sub''"
  by (simp_all add: lookupUrl_def startsWith_def template_def truthy_def)

text \<open>
  Claim C3 fails on the code for a specifier with two or more segments after the
  package name. The segments, each behind its slash, are an array, and the template
  literal inserts an array through \<open>toString\<close>, which puts a comma between them:
  \<open>pkg/a/b\<close> at \<open>2.1.0\<close> gives \<open>{origin}/pkg@2.1.0/a,/b\<close> and not \<open>{origin}/pkg@2.1.0/a/b\<close>; the
  same happens with a scope.
\<close>

theorem lookupUrl_joins_segments_with_commas:
  "lookupUrl ''https://cdn'' ''pkg/a/b'' ''2.1.0'' = ''https://cdn/pkg@2.1.0/a,/b''
   \<and> lookupUrl ''https://cdn'' ''@scope/pkg/a/b'' ''2.1.0'' = ''https://cdn/@scope/pkg@2.1.0/a,/b''"
  by (simp add: lookupUrl_def startsWith_def template_def truthy_def)

section \<open>The freshness-aware read path\<close>

text \<open>
  Claim C8. Write \<open>U\<close> for the URL qualified by the origin. (1) If the store has an
  entry for \<open>U\<close> whose \<open>freshUntil\<close> is not before the time read, \<open>fetchCDN\<close> returns the entry
  with \<open>isCached = true\<close> and \<open>isStale = false\<close>, and apart from the clock reading the state
  is untouched: no request. (2) If the store has an entry that is not fresh (expired, or
  with an invalid date) and the request is rejected, the entry is returned with
  \<open>isCached = true\<close> and \<open>isStale = true\<close>. (3) If the store has no entry and the request is
  rejected, that rejection is the result.
\<close>

theorem fetchCDN_fresh_hit_stale_fallback_and_error:
  "(\<forall>c freshUntil.
      cacache s (qualify SKYPACK_ORIGIN resourceUrl) = Some c
      \<and> meta_freshUntil (metadata c) = Some freshUntil \<and> clock (ticks s) \<le> freshUntil
      \<longrightarrow> fetchCDN SKYPACK_ORIGIN got clock resourceUrl s
          = (Inr \<lparr>cdn_body = data c,
                  cdn_headers = meta_headers (metadata c),
                  cdn_statusCode = meta_statusCode (metadata c),
                  isCached = True, isStale = False\<rparr>,
             s\<lparr>ticks := Suc (ticks s)\<rparr>))
   \<and> (\<forall>c err.
      cacache s (qualify SKYPACK_ORIGIN resourceUrl) = Some c
      \<and> (\<forall>freshUntil. meta_freshUntil (metadata c) = Some freshUntil
                          \<longrightarrow> freshUntil < clock (ticks s))
      \<and> got (requests s) (qualify SKYPACK_ORIGIN resourceUrl) = Inl err
      \<longrightarrow> fetchCDN SKYPACK_ORIGIN got clock resourceUrl s
          = (Inr \<lparr>cdn_body = data c,
                  cdn_headers = meta_headers (metadata c),
                  cdn_statusCode = meta_statusCode (metadata c),
                  isCached = True, isStale = True\<rparr>,
             s\<lparr>ticks := Suc (ticks s),
               requests := requests s @ [qualify SKYPACK_ORIGIN resourceUrl]\<rparr>))
   \<and> (\<forall>err.
      cacache s (qualify SKYPACK_ORIGIN resourceUrl) = None
      \<and> got (requests s) (qualify SKYPACK_ORIGIN resourceUrl) = Inl err
      \<longrightarrow> fetchCDN SKYPACK_ORIGIN got clock resourceUrl s
          = (Inl err, s\<lparr>requests := requests s @ [qualify SKYPACK_ORIGIN resourceUrl]\<rparr>))"
proof (intro conjI allI impI)
  fix c freshUntil
  assume "cacache s (qualify SKYPACK_ORIGIN resourceUrl) = Some c
          \<and> meta_freshUntil (metadata c) = Some freshUntil \<and> clock (ticks s) \<le> freshUntil"
  then show "fetchCDN SKYPACK_ORIGIN got clock resourceUrl s
          = (Inr \<lparr>cdn_body = data c,
                  cdn_headers = meta_headers (metadata c),
                  cdn_statusCode = meta_statusCode (metadata c),
                  isCached = True, isStale = False\<rparr>,
             s\<lparr>ticks := Suc (ticks s)\<rparr>)"
    by (simp add: fetchCDN_def Let_def)
next
  fix c err
  assume "cacache s (qualify SKYPACK_ORIGIN resourceUrl) = Some c
      \<and> (\<forall>freshUntil. meta_freshUntil (metadata c) = Some freshUntil
                          \<longrightarrow> freshUntil < clock (ticks s))
      \<and> got (requests s) (qualify SKYPACK_ORIGIN resourceUrl) = Inl err"
  then show "fetchCDN SKYPACK_ORIGIN got clock resourceUrl s
          = (Inr \<lparr>cdn_body = data c,
                  cdn_headers = meta_headers (metadata c),
                  cdn_statusCode = meta_statusCode (metadata c),
                  isCached = True, isStale = True\<rparr>,
             s\<lparr>ticks := Suc (ticks s),
               requests := requests s @ [qualify SKYPACK_ORIGIN resourceUrl]\<rparr>)"
    by (cases "meta_freshUntil (metadata c)")
       (auto simp: fetchCDN_def fetchCDN_fresh_def Let_def)
next
  fix err
  assume "cacache s (qualify SKYPACK_ORIGIN resourceUrl) = None
      \<and> got (requests s) (qualify SKYPACK_ORIGIN resourceUrl) = Inl err"
  then show "fetchCDN SKYPACK_ORIGIN got clock resourceUrl s
          = (Inl err, s\<lparr>requests := requests s @ [qualify SKYPACK_ORIGIN resourceUrl]\<rparr>)"
    by (simp add: fetchCDN_def fetchCDN_fresh_def Let_def)
qed

theorem fetchCDN_fresh_hit_stale_fallback_and_error_witness:
  "fetchCDN ''https://cdn.skypack.dev'' offline early ''/lodash'' lodash_stored
     = (Inr \<lparr>cdn_body = ''export default {};'',
             cdn_headers = Some [''cache-control'' \<mapsto> ''max-age=1''],
             cdn_statusCode = Some 200, isCached = True, isStale = False\<rparr>,
        lodash_stored\<lparr>ticks := 1\<rparr>)
   \<and> fetchCDN ''https://cdn.skypack.dev'' offline late ''/lodash'' lodash_stored
     = (Inr \<lparr>cdn_body = ''export default {};'',
             cdn_headers = Some [''cache-control'' \<mapsto> ''max-age=1''],
             cdn_statusCode = Some 200, isCached = True, isStale = True\<rparr>,
        lodash_stored\<lparr>ticks := 1, requests := [''https://cdn.skypack.dev/lodash'']\<rparr>)
   \<and> fetchCDN ''https://cdn.skypack.dev'' offline late ''/lodash'' init
     = (Inl (RequestError ''ENOTFOUND''), init\<lparr>requests := [''https://cdn.skypack.dev/lodash'']\<rparr>)"
proof -
  note run = qualify_def startsWith_def lodash_stored_def lodash_entry_def init_def offline_def
    early_def late_def
  have fresh: "fetchCDN ''https://cdn.skypack.dev'' offline early ''/lodash'' lodash_stored
     = (Inr \<lparr>cdn_body = ''export default {};'',
             cdn_headers = Some [''cache-control'' \<mapsto> ''max-age=1''],
             cdn_statusCode = Some 200, isCached = True, isStale = False\<rparr>,
        lodash_stored\<lparr>ticks := 1\<rparr>)"
    using fetchCDN_fresh_hit_stale_fallback_and_error
      [of lodash_stored "''https://cdn.skypack.dev''" "''/lodash''" early offline,
       THEN conjunct1, rule_format, of lodash_entry 2000]
    by (simp add: run)
  have stale: "fetchCDN ''https://cdn.skypack.dev'' offline late ''/lodash'' lodash_stored
     = (Inr \<lparr>cdn_body = ''export default {};'',
             cdn_headers = Some [''cache-control'' \<mapsto> ''max-age=1''],
             cdn_statusCode = Some 200, isCached = True, isStale = True\<rparr>,
        lodash_stored\<lparr>ticks := 1, requests := [''https://cdn.skypack.dev/lodash'']\<rparr>)"
    using fetchCDN_fresh_hit_stale_fallback_and_error
      [of lodash_stored "''https://cdn.skypack.dev''" "''/lodash''" late offline,
       THEN conjunct2, THEN conjunct1, rule_format, of lodash_entry "RequestError ''ENOTFOUND''"]
    by (simp add: run)
  have failed: "fetchCDN ''https://cdn.skypack.dev'' offline late ''/lodash'' init
     = (Inl (RequestError ''ENOTFOUND''), init\<lparr>requests := [''https://cdn.skypack.dev/lodash'']\<rparr>)"
    using fetchCDN_fresh_hit_stale_fallback_and_error
      [of init "''https://cdn.skypack.dev''" "''/lodash''" late offline,
       THEN conjunct2, THEN conjunct2, rule_format, of "RequestError ''ENOTFOUND''"]
    by (simp add: run)
  from fresh stale failed show ?thesis
    by simp
qed

section \<open>A task, suspended and resumed\<close>


lemma alone_Finished [simp]: "alone mk c g lf sp sv (Finished r, s) = (Finished r, s)"
  by (simp add: alone_def)

lemma alone_Suspended [simp]: "alone mk c g lf sp sv (Suspended p, s) = resume mk c g lf sp sv p s"
  by (simp add: alone_def)









section \<open>The queue comes to idle\<close>

lemma rank_pos: "0 < rank p"
  by (cases p) simp_all



lemma settle_shape [simp]:
  "waiting (settle sp r q) = waiting q" "inflight (settle sp r q) = inflight q"
  "process (settle sp r q) = process q" "settled (settle sp r q) = settled q @ [(sp, r)]"
  by (simp_all add: settle_def split: sum.splits)









section \<open>What the generator keeps\<close>



lemma recorded_Nil [simp]: "recorded [] = Map.empty"
  by (simp add: recorded_def)









section \<open>Tasks that take their turns one after the other\<close>




section \<open>The batch\<close>





end
